theory Spec2Isabelle
  imports Main "HOL-Library.Char_ord" "HOL-Library.List_Lexorder" "HOL-Library.AList"
begin

section \<open>Python values and exceptions\<close>

text \<open>
  The exceptions the two modules can raise or let through. All of them are instances of
  Python's \<open>Exception\<close>, so an \<open>except Exception\<close> clause catches each of them. A
  message is kept where the code builds or prints one.
\<close>

datatype exn =
    TypeError
  | IndexError
  | AttributeError
  | OSError
  | ImportError string
  | RuntimeError string
  | OtherError string

fun is_ImportError :: "exn \<Rightarrow> bool" where
  "is_ImportError (ImportError m) = True"
| "is_ImportError e = False"

text \<open>\<open>'%s' % e\<close>: the message of an exception built with one argument.\<close>

fun exn_str :: "exn \<Rightarrow> string" where
  "exn_str (ImportError m) = m"
| "exn_str (RuntimeError m) = m"
| "exn_str (OtherError m) = m"
| "exn_str e = []"

section \<open>gui/__init__.py: the import guard and the lazy proxy\<close>

subsection \<open>Version comparison\<close>

text \<open>
  \<open>LooseVersion(s).version\<close> is a list of components, each an integer or a string.
  \<open>LooseVersion.__lt__\<close> compares the two lists with Python's list comparison: the first
  pair of unequal components decides, a list that is a proper prefix is smaller, and
  comparing an integer with a string raises \<open>TypeError\<close>.
\<close>

datatype vpart = VNum nat | VStr string

fun vpart_lt :: "vpart \<Rightarrow> vpart \<Rightarrow> exn + bool" where
  "vpart_lt (VNum a) (VNum b) = Inr (a < b)"
| "vpart_lt (VStr a) (VStr b) = Inr (a < b)"
| "vpart_lt x y = Inl TypeError"

fun version_lt :: "vpart list \<Rightarrow> vpart list \<Rightarrow> exn + bool" where
  "version_lt [] [] = Inr False"
| "version_lt [] (y # ys) = Inr True"
| "version_lt (x # xs) [] = Inr False"
| "version_lt (x # xs) (y # ys) = (if x = y then version_lt xs ys else vpart_lt x y)"

text \<open>\<open>LooseVersion("0.9.5")\<close>\<close>

definition min_version :: "vpart list" where
  "min_version = [VNum 0, VNum 9, VNum 5]"

subsection \<open>do_import\<close>

text \<open>
  What \<open>do_import\<close> and the proxy meet outside this module:
  \<^item> \<open>import_panel\<close>: the exception \<open>import panel as pn\<close> raises, or the components of
    \<open>LooseVersion(pn.__version__)\<close>;
  \<^item> \<open>import_gui\<close>: the exception raised by the second \<open>try\<close> block (importing the
    real GUI class, registering the css, \<open>pn.extension()\<close>), if any;
  \<^item> \<open>new_gui\<close>: what calling the real GUI class returns or raises;
  \<^item> \<open>gui_reply\<close>: what the real GUI object answers to a forwarded operation.
\<close>

datatype 'k access = Getattr string | Getitem 'k | Repr | Dir

record ('g, 'k, 'r) import_env =
  import_panel :: "exn + vpart list"
  import_gui :: "exn option"
  new_gui :: "exn + 'g"
  gui_reply :: "'g \<Rightarrow> 'k access \<Rightarrow> exn + 'r"

text \<open>
  The class \<open>do_import\<close> returns: the first stub (it keeps the local \<open>error\<close>, which is
  \<open>False\<close>, here \<open>None\<close>, or the caught \<open>ImportError\<close>), the second stub, or the real
  class.
\<close>

datatype gui_class = Stub_install "exn option" | Stub_update | Real_GUI

definition do_import :: "('g, 'k, 'r) import_env \<Rightarrow> exn + gui_class" where
  "do_import env =
     (case (case import_panel env of
              Inl e \<Rightarrow> (if is_ImportError e then Inr (False, Some e) else Inl e)
            | Inr v \<Rightarrow> (case version_lt v min_version of
                         Inl e \<Rightarrow> Inl e
                       | Inr too_old \<Rightarrow> Inr (too_old, None))) of
        Inl e \<Rightarrow> Inl e
      | Inr (too_old, error) \<Rightarrow>
          if too_old \<or> error \<noteq> None then Inr (Stub_install error)
          else (case import_gui env of
                  Some e \<Rightarrow> Inr Stub_update
                | None \<Rightarrow> Inr Real_GUI))"

subsection \<open>The objects behind the proxy\<close>

datatype 'g gui_instance = Install_stub "exn option" | Update_stub | Real 'g

text \<open>\<open>GUI()\<close>: a stub class has no constructor of its own, so building it cannot fail.\<close>

definition construct :: "('g, 'k, 'r) import_env \<Rightarrow> gui_class \<Rightarrow> exn + 'g gui_instance" where
  "construct env cls =
     (case cls of
        Stub_install error \<Rightarrow> Inr (Install_stub error)
      | Stub_update \<Rightarrow> Inr Update_stub
      | Real_GUI \<Rightarrow> (case new_gui env of Inl e \<Rightarrow> Inl e | Inr g \<Rightarrow> Inr (Real g)))"

definition install_message :: "exn option \<Rightarrow> string" where
  "install_message error =
     ''Please install panel to use the GUI `conda install -c conda-forge panel>=0.8.0`. Import failed with error: ''
       @ (case error of None \<Rightarrow> ''False'' | Some e \<Rightarrow> exn_str e)"

definition update_message :: string where
  "update_message =
     ''Initialisation of GUI failed, even though panel is installed. Please update it to a more recent version (`conda install -c conda-forge panel>=0.9.5`).''"

text \<open>
  What an operation forwarded by the proxy yields. The stub classes define \<open>__repr__\<close>
  only: it raises. Everything else is what Python gives any plain object: a name that
  reached the proxy's \<open>__getattr__\<close> was not found on the proxy by normal lookup, and is
  not on a stub either (\<open>AttributeError\<close>); a stub is not subscriptable (\<open>TypeError\<close>);
  \<open>dir\<close> returns the member names. \<open>None\<close> stands for Python's \<open>None\<close> object, the
  value of \<open>_instance\<close> before the factory has run.
\<close>

datatype 'r reply = Forwarded 'r | Stub_members | None_repr | None_members

definition forward ::
  "('g, 'k, 'r) import_env \<Rightarrow> 'g gui_instance option \<Rightarrow> 'k access \<Rightarrow> exn + 'r reply" where
  "forward env inst a =
     (case inst of
        Some (Real g) \<Rightarrow> (case gui_reply env g a of Inl e \<Rightarrow> Inl e | Inr r \<Rightarrow> Inr (Forwarded r))
      | Some (Install_stub error) \<Rightarrow>
          (case a of
             Repr \<Rightarrow> Inl (RuntimeError (install_message error))
           | Getattr n \<Rightarrow> Inl AttributeError
           | Getitem k \<Rightarrow> Inl TypeError
           | Dir \<Rightarrow> Inr Stub_members)
      | Some Update_stub \<Rightarrow>
          (case a of
             Repr \<Rightarrow> Inl (RuntimeError update_message)
           | Getattr n \<Rightarrow> Inl AttributeError
           | Getitem k \<Rightarrow> Inl TypeError
           | Dir \<Rightarrow> Inr Stub_members)
      | None \<Rightarrow>
          (case a of
             Repr \<Rightarrow> Inr None_repr
           | Getattr n \<Rightarrow> Inl AttributeError
           | Getitem k \<Rightarrow> Inl TypeError
           | Dir \<Rightarrow> Inr None_members))"

subsection \<open>InstanceMaker\<close>

text \<open>
  \<open>the_instance\<close> is the attribute \<open>_instance\<close>. \<open>factory_calls\<close> is not in the source: it
  counts the calls of \<open>do_import\<close>, so that "exactly once" can be stated.
\<close>

record 'g instance_maker =
  the_instance :: "'g gui_instance option"
  factory_calls :: nat

definition init_maker :: "'g instance_maker" where
  "init_maker = \<lparr>the_instance = None, factory_calls = 0\<rparr>"

text \<open>The factory the proxy wraps: \<open>GUI = do_import()\<close> followed by \<open>GUI()\<close>.\<close>

definition factory :: "('g, 'k, 'r) import_env \<Rightarrow> exn + 'g gui_instance" where
  "factory env = (case do_import env of Inl e \<Rightarrow> Inl e | Inr cls \<Rightarrow> construct env cls)"

definition instantiate ::
  "('g, 'k, 'r) import_env \<Rightarrow> 'g instance_maker \<Rightarrow> exn option \<times> 'g instance_maker" where
  "instantiate env m =
     (if the_instance m = None then
        (case factory env of
           Inl e \<Rightarrow> (Some e, m\<lparr>factory_calls := Suc (factory_calls m)\<rparr>)
         | Inr i \<Rightarrow> (None, m\<lparr>factory_calls := Suc (factory_calls m), the_instance := Some i\<rparr>))
      else (None, m))"

text \<open>
  \<open>__getattr__\<close>, \<open>__getitem__\<close>, \<open>__repr__\<close> and \<open>__dir__\<close>: each calls \<open>_instantiate\<close> and
  then applies the same operation to \<open>self._instance\<close>.
\<close>

definition proxy_access ::
  "('g, 'k, 'r) import_env \<Rightarrow> 'k access \<Rightarrow> 'g instance_maker
     \<Rightarrow> (exn + 'r reply) \<times> 'g instance_maker" where
  "proxy_access env a m =
     (case instantiate env m of
        (Some e, m1) \<Rightarrow> (Inl e, m1)
      | (None, m1) \<Rightarrow> (forward env (the_instance m1) a, m1))"

text \<open>A sequence of operations on one proxy, with the result of each.\<close>

fun run_accesses ::
  "('g, 'k, 'r) import_env \<Rightarrow> 'k access list \<Rightarrow> 'g instance_maker
     \<Rightarrow> (exn + 'r reply) list \<times> 'g instance_maker" where
  "run_accesses env [] m = ([], m)"
| "run_accesses env (a # as) m =
     (case proxy_access env a m of
        (r, m1) \<Rightarrow> (case run_accesses env as m1 of (rs, m2) \<Rightarrow> (r # rs, m2)))"

section \<open>gui/catalog/add.py: the file browser, the URL field and the catalog adder\<close>

text \<open>
  The widget framework is outside the repository. Of it the model keeps what the
  module relies on: a widget holds a value; an assignment that changes the value calls
  the watchers registered on it, one after the other in the order of registration,
  before the assignment returns; an exception raised by a watcher propagates out of
  the assignment, and the value stays assigned. The framework's own checks of an
  assigned value are not modelled: an assignment stores what it is given.
\<close>

subsection \<open>Strings and POSIX paths\<close>

text \<open>
  Python's \<open>str.startswith\<close>, \<open>str.endswith\<close> and \<open>str.rstrip(chars)\<close>, and
  \<open>os.path.sep\<close>, \<open>os.path.dirname\<close> and \<open>os.path.join\<close> as \<open>posixpath\<close> defines them
  (the paths of the specification are POSIX paths).
\<close>

definition sep :: string where
  "sep = ''/''"

definition startswith :: "string \<Rightarrow> string \<Rightarrow> bool" where
  "startswith s p = (take (length p) s = p)"

definition endswith :: "string \<Rightarrow> string \<Rightarrow> bool" where
  "endswith s p = (length p \<le> length s \<and> drop (length s - length p) s = p)"

definition rstrip :: "string \<Rightarrow> string \<Rightarrow> string" where
  "rstrip s chars = rev (dropWhile (\<lambda>c. c \<in> set chars) (rev s))"

text \<open>
  \<open>dirname\<close>: \<open>i = p.rfind(sep) + 1; head = p[:i]\<close>, the text up to and including the last
  separator; the trailing separators of \<open>head\<close> are stripped unless \<open>head\<close> consists of
  separators only.
\<close>

definition dirname :: "string \<Rightarrow> string" where
  "dirname p =
     (let head = rev (dropWhile (\<lambda>c. c \<noteq> CHR ''/'') (rev p)) in
      if head \<noteq> [] \<and> head \<noteq> replicate (length head) (CHR ''/'') then rstrip head sep
      else head)"

definition join :: "string \<Rightarrow> string \<Rightarrow> string" where
  "join a b =
     (if startswith b sep then b
      else if a = [] \<or> endswith a sep then a @ b
      else a @ sep @ b)"

text \<open>
  The values a widget holds or a property returns: \<open>None\<close>, a string, or a list of
  strings. \<open>len(v)\<close> and \<open>v[0]\<close> are Python's: the first item of a string is its first
  character.
\<close>

datatype pyval = PNone | PStr string | PList "string list"

fun pylen :: "pyval \<Rightarrow> exn + nat" where
  "pylen PNone = Inl TypeError"
| "pylen (PStr s) = Inr (length s)"
| "pylen (PList xs) = Inr (length xs)"

fun pyfirst :: "pyval \<Rightarrow> exn + string" where
  "pyfirst PNone = Inl TypeError"
| "pyfirst (PStr []) = Inl IndexError"
| "pyfirst (PStr (c # s)) = Inr [c]"
| "pyfirst (PList []) = Inl IndexError"
| "pyfirst (PList (x # xs)) = Inr x"

text \<open>\<open>os.path.join(a, v)\<close> with \<open>a\<close> a string: anything but a string for \<open>v\<close> is a \<open>TypeError\<close>.\<close>

fun path_join :: "string \<Rightarrow> pyval \<Rightarrow> exn + pyval" where
  "path_join a (PStr b) = Inr (PStr (join a b))"
| "path_join a v = Inl TypeError"

text \<open>
  The file system and the working directory, as the module reads them through \<open>os\<close>.
  \<open>os.listdir\<close> may raise (\<open>OSError\<close>); \<open>os.path.isdir\<close> and \<open>os.path.isfile\<close> do not raise on a
  string.
\<close>

record os_env =
  getcwd :: string
  isdir :: "string \<Rightarrow> bool"
  isfile :: "string \<Rightarrow> bool"
  listdir :: "string \<Rightarrow> exn + string list"

text \<open>
  \<open>ICONS\<close> is declared in gui/base.py; this module reads its entry \<open>'error'\<close> only.
\<close>

datatype icon = Error_icon

subsection \<open>Actions: a state change that may end in an exception\<close>

text \<open>
  A method that mutates its object and may raise is a function from the state to the
  raised exception (if any) and the state it leaves: what was assigned before the
  exception stays assigned.
\<close>

type_synonym 's action = "'s \<Rightarrow> exn option \<times> 's"

definition then_do :: "'s action \<Rightarrow> 's action \<Rightarrow> 's action" where
  "then_do a b s = (case a s of (None, s1) \<Rightarrow> b s1 | (Some e, s1) \<Rightarrow> (Some e, s1))"

subsection \<open>FileSelector\<close>

text \<open>
  The widgets' values are the fields: \<open>path_text.value\<close>, \<open>validator.object\<close>,
  \<open>main.value\<close>, \<open>main.options\<close>. \<open>watching\<close> says whether the watchers of \<open>setup\<close> are
  registered. \<open>notified\<close> is not in the source: it records the arguments
  \<open>done_callback\<close> has been called with, in order.
\<close>

record file_selector =
  filters :: "string list"
  path_text_value :: string
  validator_object :: "icon option"
  main_value :: pyval
  main_options :: "(string \<times> string) list"
  watching :: bool
  notified :: "bool list"

text \<open>
  What the owner of a FileSelector supplies, acting on the owner's state \<open>'w\<close>:
  \<open>fs_done_callback\<close> is the constructor's \<open>done_callback\<close>; \<open>main_watchers\<close> are the
  watchers other components have registered on \<open>main\<close>'s value (they run after
  \<open>move_down\<close>, which \<open>setup\<close> registered first).
\<close>

record 'w fs_hooks =
  fs_done_callback :: "(bool \<Rightarrow> 'w action) option"
  main_watchers :: "'w action"

definition call_done_callback :: "'w fs_hooks \<Rightarrow> bool \<Rightarrow> (file_selector \<times> 'w) action" where
  "call_done_callback h b = (\<lambda>(f, w).
     case fs_done_callback h of
       None \<Rightarrow> (Some TypeError, (f, w))
     | Some cb \<Rightarrow> (case cb b w of (r, w1) \<Rightarrow> (r, (f\<lparr>notified := notified f @ [b]\<rparr>, w1))))"

definition path :: "file_selector \<Rightarrow> string" where
  "path f = (let p = path_text_value f in if endswith p sep then p else p @ sep)"

definition selected :: "file_selector \<Rightarrow> exn + pyval" where
  "selected f =
     (case pylen (main_value f) of
        Inl e \<Rightarrow> Inl e
      | Inr n \<Rightarrow>
          if n > 0 then (case pyfirst (main_value f) of Inl e \<Rightarrow> Inl e | Inr x \<Rightarrow> Inr (PStr x))
          else Inr (PList []))"

definition fs_url :: "file_selector \<Rightarrow> exn + pyval" where
  "fs_url f =
     (case selected f of
        Inl e \<Rightarrow> Inl e
      | Inr v \<Rightarrow> if v \<noteq> PNone then path_join (path f) v else Inr PNone)"

definition validate :: "os_env \<Rightarrow> file_selector \<Rightarrow> file_selector" where
  "validate os f =
     (if isdir os (path f) then f\<lparr>validator_object := None\<rparr>
      else f\<lparr>validator_object := Some Error_icon\<rparr>)"

text \<open>The loop of \<open>make_options\<close> over the sorted listing; the result is \<open>out\<close>.\<close>

fun scan_entries :: "os_env \<Rightarrow> string list \<Rightarrow> string \<Rightarrow> string list \<Rightarrow> string list" where
  "scan_entries os flt p [] = []"
| "scan_entries os flt p (f # fs) =
     (if startswith f ''.'' then scan_entries os flt p fs
      else if isdir os (join p f) then (f @ sep) # scan_entries os flt p fs
      else if list_ex (\<lambda>ext. endswith f ext) flt then f # scan_entries os flt p fs
      else scan_entries os flt p fs)"

text \<open>
  \<open>dict(pairs)\<close>: the pairs are inserted in order; a key that is already there keeps its
  place and takes the new value.
\<close>

definition py_dict :: "('k \<times> 'v) list \<Rightarrow> ('k \<times> 'v) list" where
  "py_dict ps = foldl (\<lambda>d (k, v). AList.update k v d) [] ps"

text \<open>
  \<open>self.main.value = []\<close>. The framework calls the watchers of a value when an
  assignment changes it. Of the watchers of \<open>main\<close>, \<open>move_down\<close> does nothing for an
  empty new value (its body is guarded by \<open>len(event.new) > 0\<close>), which leaves the
  watchers of the owner.
\<close>

definition assign_main_empty :: "'w fs_hooks \<Rightarrow> (file_selector \<times> 'w) action" where
  "assign_main_empty h = (\<lambda>(f, w).
     if main_value f = PList [] then (None, (f, w))
     else (case main_watchers h w of (r, w1) \<Rightarrow> (r, (f\<lparr>main_value := PList []\<rparr>, w1))))"

definition make_options :: "os_env \<Rightarrow> 'w fs_hooks \<Rightarrow> (file_selector \<times> 'w) action" where
  "make_options os h =
     then_do
       (\<lambda>s. if fs_done_callback h \<noteq> None then call_done_callback h False s else (None, s))
       (\<lambda>(f, w).
          case (if isdir os (path f) then
                  (case listdir os (path f) of
                     Inl e \<Rightarrow> Inl e
                   | Inr names \<Rightarrow> Inr (scan_entries os (filters f) (path f) (sort names)))
                else Inr []) of
            Inl e \<Rightarrow> (Some e, (f, w))
          | Inr out \<Rightarrow>
              then_do (assign_main_empty h)
                (\<lambda>(f, w). (None, (f\<lparr>main_options := py_dict (zip out out)\<rparr>, w)))
                (f, w))"

text \<open>
  \<open>self.path_text.value = v\<close>: when the value changes and the watchers are registered,
  \<open>validate\<close> and \<open>make_options\<close> run, in the order \<open>setup\<close> registered them.
\<close>

definition assign_path_text ::
  "os_env \<Rightarrow> 'w fs_hooks \<Rightarrow> string \<Rightarrow> (file_selector \<times> 'w) action" where
  "assign_path_text os h v = (\<lambda>(f, w).
     if path_text_value f = v then (None, (f, w))
     else if watching f then make_options os h (validate os (f\<lparr>path_text_value := v\<rparr>), w)
     else (None, (f\<lparr>path_text_value := v\<rparr>, w)))"

definition move_up :: "os_env \<Rightarrow> 'w fs_hooks \<Rightarrow> (file_selector \<times> 'w) action" where
  "move_up os h = (\<lambda>(f, w).
     assign_path_text os h (dirname (rstrip (path f) sep) @ sep) (f, w))"

definition go_home :: "os_env \<Rightarrow> 'w fs_hooks \<Rightarrow> (file_selector \<times> 'w) action" where
  "go_home os h = assign_path_text os h (getcwd os @ sep)"

text \<open>\<open>move_down\<close> for one event on \<open>main\<close>'s value, \<open>new\<close> being \<open>event.new\<close>.\<close>

definition move_down ::
  "os_env \<Rightarrow> 'w fs_hooks \<Rightarrow> pyval \<Rightarrow> (file_selector \<times> 'w) action" where
  "move_down os h new = (\<lambda>(f, w).
     case pylen new of
       Inl e \<Rightarrow> (Some e, (f, w))
     | Inr n \<Rightarrow>
         if n > 0 then
           (case pyfirst new of
              Inl e \<Rightarrow> (Some e, (f, w))
            | Inr fn \<Rightarrow>
                if endswith fn sep then
                  then_do (assign_path_text os h (path f @ fn)) (make_options os h) (f, w)
                else
                  (case fs_url f of
                     Inl e \<Rightarrow> (Some e, (f, w))
                   | Inr (PStr u) \<Rightarrow>
                       if isfile os u \<and> fs_done_callback h \<noteq> None
                       then call_done_callback h True (f, w)
                       else (None, (f, w))
                   | Inr v \<Rightarrow> (Some TypeError, (f, w))))
         else (None, (f, w)))"

text \<open>
  \<open>self.main.value = v\<close> in general: \<open>move_down\<close> when the FileSelector's watchers are
  registered, then the owner's watchers.
\<close>

definition assign_main_value ::
  "os_env \<Rightarrow> 'w fs_hooks \<Rightarrow> pyval \<Rightarrow> (file_selector \<times> 'w) action" where
  "assign_main_value os h v = (\<lambda>(f, w).
     if main_value f = v then (None, (f, w))
     else then_do
            (\<lambda>(f, w). if watching f then move_down os h v (f, w) else (None, (f, w)))
            (\<lambda>(f, w). case main_watchers h w of (r, w1) \<Rightarrow> (r, (f, w1)))
            (f\<lparr>main_value := v\<rparr>, w))"

record fs_snapshot =
  snap_path :: string
  snap_selected :: pyval

definition fs_getstate :: "file_selector \<Rightarrow> exn + fs_snapshot" where
  "fs_getstate f =
     (case selected f of
        Inl e \<Rightarrow> Inl e
      | Inr v \<Rightarrow> Inr \<lparr>snap_path = path f, snap_selected = v\<rparr>)"

definition fs_setstate ::
  "os_env \<Rightarrow> 'w fs_hooks \<Rightarrow> fs_snapshot \<Rightarrow> (file_selector \<times> 'w) action" where
  "fs_setstate os h st =
     then_do (assign_path_text os h (snap_path st)) (assign_main_value os h (snap_selected st))"

text \<open>
  Modelled from the spec: the constructor of the base class \<open>Base\<close> (gui/base.py, not
  among the sources), which \<open>__init__\<close> calls last. The specification's lifecycle has a
  component constructed visible, with "its watchers registered at setup time", so
  construction runs \<open>setup\<close>. The rest is \<open>__init__\<close> and \<open>setup\<close> as written: the widgets
  get their initial values, \<open>make_options\<close> runs, and then the watchers are registered.
\<close>

definition new_file_selector ::
  "os_env \<Rightarrow> 'w fs_hooks \<Rightarrow> string list \<Rightarrow> 'w \<Rightarrow> exn option \<times> file_selector \<times> 'w" where
  "new_file_selector os h flt w =
     then_do (make_options os h) (\<lambda>(f, w). (None, (f\<lparr>watching := True\<rparr>, w)))
       (\<lparr>filters = flt, path_text_value = getcwd os @ sep, validator_object = None,
         main_value = PList [], main_options = [], watching = False, notified = []\<rparr>, w)"

text \<open>
  The listing in the specification's words, to compare \<open>make_options\<close> with: an entry is
  listed when its name does not start with the hidden-file marker and it is a
  subdirectory or its name ends with one of the filters; a subdirectory is shown with
  the separator appended, a file as it is.
\<close>

definition spec_listed :: "os_env \<Rightarrow> string list \<Rightarrow> string \<Rightarrow> string \<Rightarrow> bool" where
  "spec_listed os flt p n \<longleftrightarrow>
     \<not> startswith n ''.'' \<and> (isdir os (join p n) \<or> list_ex (\<lambda>ext. endswith n ext) flt)"

definition spec_shown_as :: "os_env \<Rightarrow> string \<Rightarrow> string \<Rightarrow> string" where
  "spec_shown_as os p n = (if isdir os (join p n) then n @ sep else n)"

text \<open>
  Hooks that return normally: the callback never raises, and neither do the watchers
  of the owner.
\<close>

definition quiet_hooks :: "'w fs_hooks \<Rightarrow> bool" where
  "quiet_hooks h \<longleftrightarrow>
     (\<forall>cb b w. fs_done_callback h = Some cb \<longrightarrow> fst (cb b w) = None) \<and>
     (\<forall>w. fst (main_watchers h w) = None)"

subsection \<open>URLSelector\<close>

record url_selector =
  url_main_value :: pyval

definition url_url :: "url_selector \<Rightarrow> pyval" where
  "url_url u = url_main_value u"

text \<open>
  \<open>self.main.value = v\<close>: \<open>setup\<close> registers no watcher of its own; \<open>ws\<close> are the watchers
  the owner has registered on the field.
\<close>

definition assign_url_value :: "'w action \<Rightarrow> pyval \<Rightarrow> (url_selector \<times> 'w) action" where
  "assign_url_value ws v = (\<lambda>(u, w).
     if url_main_value u = v then (None, (u, w))
     else (case ws w of (r, w1) \<Rightarrow> (r, (u\<lparr>url_main_value := v\<rparr>, w1))))"

record url_snapshot =
  snap_url :: pyval

definition url_getstate :: "url_selector \<Rightarrow> url_snapshot" where
  "url_getstate u = \<lparr>snap_url = url_url u\<rparr>"

definition url_setstate :: "'w action \<Rightarrow> url_snapshot \<Rightarrow> (url_selector \<times> 'w) action" where
  "url_setstate ws st = assign_url_value ws (snap_url st)"

text \<open>A text input starts with the empty string.\<close>

definition new_url_selector :: url_selector where
  "new_url_selector = \<lparr>url_main_value = PStr []\<rparr>"

subsection \<open>CatAdder\<close>

text \<open>
  The CatAdder's own fields: \<open>widget.disabled\<close>, \<open>validator.object\<close>, \<open>tabs.active\<close>,
  \<open>visible\<close>, and whether the watchers of \<open>setup\<close> are registered. \<open>done_calls\<close> is not in
  the source: it records the handles \<open>done_callback\<close> has been called with, in order.
  The component as a whole is its FileSelector \<open>fs\<close>, its URLSelector \<open>url\<close> and these
  fields. The model covers a CatAdder that has been set up (\<open>tabs\<close> and \<open>validator\<close>
  exist), which is how the specification's state machine starts.
\<close>

record 'c adder =
  widget_disabled :: bool
  adder_validator_object :: "icon option"
  tabs_active :: int
  visible :: bool
  adder_watching :: bool
  done_calls :: "'c list"

type_synonym 'c cat_adder = "file_selector \<times> url_selector \<times> 'c adder"

text \<open>
  What the CatAdder meets outside: \<open>intake.open_catalog\<close>, and the constructor's
  \<open>done_callback\<close> (absent, or a function that returns or raises).
\<close>

record 'c adder_env =
  open_catalog :: "pyval \<Rightarrow> exn + 'c"
  cat_done_callback :: "('c \<Rightarrow> exn option) option"

text \<open>
  Modelled from the spec: \<open>enable_widget\<close> of gui/base.py, which is not among the
  sources. The specification has a notification with value true enable the confirm
  action and one with value false disable it; the widget is the CatAdder's button
  (\<open>partial(enable_widget, self.widget)\<close>).
\<close>

definition enable_widget :: "bool \<Rightarrow> 'c adder \<Rightarrow> 'c adder" where
  "enable_widget enable a = a\<lparr>widget_disabled := \<not> enable\<rparr>"

text \<open>
  Modelled from the spec: the setter of \<open>visible\<close> in the base class \<open>Base\<close> (gui/base.py,
  not among the sources). The specification says that the watchers of a component are
  "implicitly torn down when the group's visibility is set false"; it says nothing else
  about the setter, so nothing else happens here.
\<close>

definition set_visible :: "bool \<Rightarrow> 'c adder \<Rightarrow> 'c adder" where
  "set_visible v a =
     (if v then a\<lparr>visible := True\<rparr> else a\<lparr>visible := False, adder_watching := False\<rparr>)"

definition remove_error :: "'c adder \<Rightarrow> 'c adder" where
  "remove_error a = a\<lparr>adder_validator_object := None\<rparr>"

text \<open>\<open>tab_change\<close>, \<open>new\<close> being \<open>event.new\<close>.\<close>

definition tab_change :: "int \<Rightarrow> 'c adder \<Rightarrow> 'c adder" where
  "tab_change new a =
     (let a1 = remove_error a in if new = 1 then a1\<lparr>widget_disabled := False\<rparr> else a1)"

text \<open>
  The hooks of the CatAdder's children: the FileSelector's \<open>done_callback\<close> is
  \<open>partial(enable_widget, self.widget)\<close>, and \<open>setup\<close> registers \<open>remove_error\<close> on the
  value of \<open>fs.main\<close> and of \<open>url.main\<close>.
\<close>

definition adder_watchers :: "'c adder action" where
  "adder_watchers a = (None, if adder_watching a then remove_error a else a)"

definition adder_fs_hooks :: "(url_selector \<times> 'c adder) fs_hooks" where
  "adder_fs_hooks =
     \<lparr>fs_done_callback = Some (\<lambda>b (u, a). (None, (u, enable_widget b a))),
      main_watchers = (\<lambda>(u, a). case adder_watchers a of (r, a1) \<Rightarrow> (r, (u, a1)))\<rparr>"

text \<open>
  \<open>self.selectors[self.tabs.active].url\<close>: \<open>selectors\<close> is \<open>[self.fs, self.url]\<close>, indexed as
  Python indexes a list of two.
\<close>

definition cat_url :: "'c cat_adder \<Rightarrow> exn + pyval" where
  "cat_url = (\<lambda>(f, u, a).
     if tabs_active a = 0 \<or> tabs_active a = - 2 then fs_url f
     else if tabs_active a = 1 \<or> tabs_active a = - 1 then Inr (url_url u)
     else Inl IndexError)"

definition cat :: "'c adder_env \<Rightarrow> 'c cat_adder \<Rightarrow> exn + 'c" where
  "cat env s = (case cat_url s of Inl e \<Rightarrow> Inl e | Inr loc \<Rightarrow> open_catalog env loc)"

text \<open>
  \<open>add_cat\<close>: the body of the \<open>try\<close> evaluates \<open>self.cat\<close>, calls \<open>done_callback\<close> with it
  (calling \<open>None\<close> is a \<open>TypeError\<close>) and sets \<open>visible\<close>; the handler sets the error icon
  and raises the exception again.
\<close>

definition add_cat :: "'c adder_env \<Rightarrow> 'c cat_adder action" where
  "add_cat env = (\<lambda>(f, u, a).
     case (case cat env (f, u, a) of
             Inl e \<Rightarrow> (Some e, a)
           | Inr c \<Rightarrow>
               (case cat_done_callback env of
                  None \<Rightarrow> (Some TypeError, a)
                | Some cb \<Rightarrow>
                    (case cb c of
                       Some e \<Rightarrow> (Some e, a\<lparr>done_calls := done_calls a @ [c]\<rparr>)
                     | None \<Rightarrow> (None, set_visible False (a\<lparr>done_calls := done_calls a @ [c]\<rparr>))))) of
       (Some e, a1) \<Rightarrow> (Some e, (f, u, a1\<lparr>adder_validator_object := Some Error_icon\<rparr>))
     | (None, a1) \<Rightarrow> (None, (f, u, a1)))"

text \<open>\<open>self.tabs.active = i\<close>: \<open>tab_change\<close> is the watcher \<open>setup\<close> registers on it.\<close>

definition assign_tabs_active :: "int \<Rightarrow> 'c adder \<Rightarrow> 'c adder" where
  "assign_tabs_active i a =
     (if tabs_active a = i then a
      else if adder_watching a then tab_change i (a\<lparr>tabs_active := i\<rparr>)
      else a\<lparr>tabs_active := i\<rparr>)"

text \<open>
  The snapshot of \<open>__getstate__\<close>. \<open>snap_visible\<close> is optional because \<open>__setstate__\<close> reads
  it with \<open>state.get('visible', True)\<close>. In \<open>__getstate__\<close>, \<open>self.tabs\<close> is the tabs of a
  component that has been set up: two panels, hence true.
\<close>

record adder_snapshot =
  snap_visible :: "bool option"
  snap_local :: fs_snapshot
  snap_remote :: url_snapshot
  snap_active :: int

definition cat_getstate :: "'c cat_adder \<Rightarrow> exn + adder_snapshot" where
  "cat_getstate = (\<lambda>(f, u, a).
     case fs_getstate f of
       Inl e \<Rightarrow> Inl e
     | Inr l \<Rightarrow>
         Inr \<lparr>snap_visible = Some (visible a), snap_local = l, snap_remote = url_getstate u,
              snap_active = tabs_active a\<rparr>)"

definition cat_setstate :: "os_env \<Rightarrow> adder_snapshot \<Rightarrow> 'c cat_adder action" where
  "cat_setstate os st =
     then_do (fs_setstate os adder_fs_hooks (snap_local st))
       (then_do
          (\<lambda>(f, ua). case url_setstate adder_watchers (snap_remote st) ua of
                        (r, ua1) \<Rightarrow> (r, (f, ua1)))
          (\<lambda>(f, u, a).
             let a1 = set_visible (case snap_visible st of None \<Rightarrow> True | Some v \<Rightarrow> v) a in
             if visible a1 then (None, (f, u, assign_tabs_active (snap_active st) a1))
             else (None, (f, u, a1))))"

text \<open>
  \<open>CatAdder(done_callback)\<close> followed by \<open>setup\<close>: the button starts disabled, the
  FileSelector is built with the default filters (its \<open>make_options\<close> calls
  \<open>enable_widget\<close> with false), the URLSelector is built, and \<open>setup\<close> creates the tabs
  (the first one active) and the empty validator and registers the watchers. The
  URLSelector is independent of the FileSelector, so it may stand in the state from the
  start.
\<close>

definition new_cat_adder :: "os_env \<Rightarrow> exn option \<times> 'c cat_adder" where
  "new_cat_adder os =
     (case new_file_selector os adder_fs_hooks [''yaml'', ''yml'']
             (new_url_selector,
              \<lparr>widget_disabled = True, adder_validator_object = None, tabs_active = 0,
               visible = False, adder_watching = False, done_calls = []\<rparr>) of
        (Some e, s) \<Rightarrow> (Some e, s)
      | (None, (f, u, a)) \<Rightarrow>
          (None, (f, u, a\<lparr>adder_validator_object := None, tabs_active := 0,
                          visible := True, adder_watching := True\<rparr>)))"

text \<open>The user selects tab \<open>i\<close>: the framework assigns \<open>tabs.active\<close>.\<close>

definition switch_tab :: "int \<Rightarrow> 'c cat_adder \<Rightarrow> 'c cat_adder" where
  "switch_tab i = (\<lambda>(f, u, a). (f, u, assign_tabs_active i a))"

text \<open>What the specification observes of a component.\<close>

definition fs_observed :: "file_selector \<Rightarrow> string \<times> (exn + pyval)" where
  "fs_observed f = (path f, selected f)"

definition cat_observed ::
  "'c cat_adder \<Rightarrow> (string \<times> (exn + pyval)) \<times> pyval \<times> int \<times> bool" where
  "cat_observed = (\<lambda>(f, u, a). (fs_observed f, url_url u, tabs_active a, visible a))"

section \<open>Concrete environments\<close>

text \<open>
  Three installations: panel cannot be imported; panel 0.8.3 is installed; panel 0.10.0
  is installed and the constructor of the real GUI class raises.
\<close>

definition env_missing :: "(unit, unit, unit) import_env" where
  "env_missing = \<lparr>import_panel = Inl (ImportError ''No module named panel''), import_gui = None,
     new_gui = Inr (), gui_reply = (\<lambda>g a. Inr ())\<rparr>"

definition env_old :: "(unit, unit, unit) import_env" where
  "env_old = \<lparr>import_panel = Inr [VNum 0, VNum 8, VNum 3], import_gui = None,
     new_gui = Inr (), gui_reply = (\<lambda>g a. Inr ())\<rparr>"

definition env_broken :: "(unit, unit, unit) import_env" where
  "env_broken = \<lparr>import_panel = Inr [VNum 0, VNum 10, VNum 0], import_gui = None,
     new_gui = Inl (OtherError ''constructor failed''), gui_reply = (\<lambda>g a. Inr ())\<rparr>"

text \<open>
  A file system with a working directory \<open>/home/u\<close> (empty) and a directory \<open>/data\<close> that
  holds a subdirectory \<open>a\<close>, a hidden directory, two catalog files, a text file and a
  hidden catalog file; listing any other path fails.
\<close>

definition os_demo :: os_env where
  "os_demo = \<lparr>getcwd = ''/home/u'',
     isdir = (\<lambda>p. p \<in> set [''/home/u/'', ''/data/'', ''/data/a'', ''/data/.git'']),
     isfile = (\<lambda>p. p \<in> set [''/data/a.yaml'', ''/data/b.yml'', ''/data/notes.txt'', ''/data/.hidden.yaml'']),
     listdir = (\<lambda>p. if p = ''/data/'' then Inr [''notes.txt'', ''b.yml'', ''a.yaml'', ''.git'', ''a'', ''.hidden.yaml'']
                     else if p = ''/home/u/'' then Inr [] else Inl OSError)\<rparr>"

text \<open>A standalone FileSelector whose callback returns, with no other watcher on it.\<close>

definition plain_hooks :: "unit fs_hooks" where
  "plain_hooks = \<lparr>fs_done_callback = Some (\<lambda>b w. (None, w)), main_watchers = (\<lambda>w. (None, w))\<rparr>"

text \<open>
  A catalog opener that knows one local and one remote catalog, and a completion
  callback that returns.
\<close>

definition env_demo :: "string adder_env" where
  "env_demo = \<lparr>open_catalog = (\<lambda>loc. if loc = PStr ''/data/a.yaml'' \<or> loc = PStr ''http://host/cat.yaml'' then Inr ''catalog''
                                  else Inl (OtherError ''no such catalog'')),
               cat_done_callback = Some (\<lambda>c. None)\<rparr>"

text \<open>
  The parts of a CatAdder just constructed in this file system, and two states a user
  can bring it to: the remote tab with the location of no catalog typed in, and the
  local tab with a catalog file picked.
\<close>

definition demo_fs :: file_selector where
  "demo_fs = \<lparr>filters = [''yaml'', ''yml''], path_text_value = ''/home/u/'',
     validator_object = None, main_value = PList [], main_options = [],
     watching = True, notified = [False]\<rparr>"

definition demo_adder :: "string adder" where
  "demo_adder = \<lparr>widget_disabled = True, adder_validator_object = None, tabs_active = 0,
     visible = True, adder_watching = True, done_calls = []\<rparr>"

definition remote_missing :: "string cat_adder" where
  "remote_missing = (demo_fs, \<lparr>url_main_value = PStr ''/tmp/nonexistent.yaml''\<rparr>,
      demo_adder\<lparr>tabs_active := 1, widget_disabled := False\<rparr>)"

definition local_picked :: "string cat_adder" where
  "local_picked = (demo_fs\<lparr>path_text_value := ''/data/'', main_value := PList [''a.yaml'']\<rparr>,
      new_url_selector, demo_adder\<lparr>widget_disabled := False\<rparr>)"

text \<open>A FileSelector that has been taken to \<open>/data/\<close>.\<close>

definition data_fs :: file_selector where
  "data_fs = demo_fs\<lparr>path_text_value := ''/data/''\<rparr>"

text \<open>
  A CatAdder in which the user has typed a URL into the remote field, and the state
  it reaches when the user then switches to the remote tab and confirms: hidden, with
  the remote tab active.
\<close>

definition typed_remote :: "string cat_adder" where
  "typed_remote = (demo_fs, \<lparr>url_main_value = PStr ''http://host/cat.yaml''\<rparr>, demo_adder)"

definition hidden_remote :: "string cat_adder" where
  "hidden_remote = snd (add_cat env_demo (switch_tab 1 typed_remote))"

section \<open>The lazy proxy: properties\<close>

lemma instantiate_cached:
  "the_instance m = Some i \<Longrightarrow> instantiate env m = (None, m)"
  by (simp add: instantiate_def)

lemma run_cached:
  "the_instance m = Some i \<Longrightarrow> run_accesses env as m = (map (forward env (Some i)) as, m)"
  by (induction as) (simp_all add: proxy_access_def instantiate_cached)

lemma run_failing:
  "factory env = Inl e \<Longrightarrow> the_instance m = None \<Longrightarrow>
   run_accesses env as m =
     (map (\<lambda>a. Inl e) as, m\<lparr>factory_calls := factory_calls m + length as\<rparr>)"
  by (induction as arbitrary: m) (simp_all add: proxy_access_def instantiate_def)

lemma first_access:
  "factory env = Inr i \<Longrightarrow>
   proxy_access env a init_maker =
     (forward env (Some i) a, \<lparr>the_instance = Some i, factory_calls = 1\<rparr>)"
  by (simp add: proxy_access_def instantiate_def init_maker_def)

text \<open>
  C8, as amended. When the factory returns an instance (it does whenever it returns a
  stub), every non-empty sequence of accesses calls it exactly once, on the first
  access; the instance is cached and each access, the first included, yields what the
  cached instance yields. When the factory raises, nothing is cached: every access
  calls the factory again and raises its exception.
\<close>

theorem factory_once:
  "(factory env = Inr i \<and> as \<noteq> [] \<longrightarrow>
      run_accesses env as init_maker =
        (map (forward env (Some i)) as, \<lparr>the_instance = Some i, factory_calls = 1\<rparr>)) \<and>
   (factory env = Inl e \<longrightarrow>
      run_accesses env as init_maker =
        (map (\<lambda>a. Inl e) as, \<lparr>the_instance = None, factory_calls = length as\<rparr>))"
proof (intro conjI impI)
  assume "factory env = Inr i \<and> as \<noteq> []"
  then obtain a rest where f: "factory env = Inr i" and as: "as = a # rest"
    by (cases as) auto
  show "run_accesses env as init_maker =
        (map (forward env (Some i)) as, \<lparr>the_instance = Some i, factory_calls = 1\<rparr>)"
    unfolding as using first_access [OF f, of a] by (simp add: run_cached)
next
  assume "factory env = Inl e"
  then show "run_accesses env as init_maker =
        (map (\<lambda>a. Inl e) as, \<lparr>the_instance = None, factory_calls = length as\<rparr>)"
    by (simp add: run_failing init_maker_def)
qed

lemma factory_missing: "factory env_missing = Inr (Install_stub (Some (ImportError ''No module named panel'')))"
  by (simp add: factory_def do_import_def construct_def env_missing_def)

lemma factory_broken: "factory env_broken = Inl (OtherError ''constructor failed'')"
  by (simp add: factory_def do_import_def construct_def env_broken_def min_version_def)

text \<open>
  C8, witness: three accesses with panel missing (one call of the factory, the stub
  cached), and two accesses with a constructor that raises (two calls).
\<close>

theorem factory_once_witness:
  "run_accesses env_missing [Getattr ''cat'', Repr, Dir] init_maker =
     ([Inl AttributeError,
       Inl (RuntimeError (install_message (Some (ImportError ''No module named panel'')))),
       Inr Stub_members],
      \<lparr>the_instance = Some (Install_stub (Some (ImportError ''No module named panel''))),
       factory_calls = 1\<rparr>) \<and>
   run_accesses env_broken [Repr, Dir] init_maker =
     ([Inl (OtherError ''constructor failed''), Inl (OtherError ''constructor failed'')],
      \<lparr>the_instance = None, factory_calls = 2\<rparr>)"
  using factory_once [of env_missing "Install_stub (Some (ImportError ''No module named panel''))"
                         "[Getattr ''cat'', Repr, Dir]"]
        factory_once [of env_broken _ "[Repr, Dir]" "OtherError ''constructor failed''"]
  by (simp add: factory_missing factory_broken forward_def)

text \<open>
  C8, counterexample to "for every sequence of accesses the factory is invoked exactly
  once": with a constructor that raises, two accesses call the factory twice and cache
  nothing.
\<close>

theorem factory_twice_counterexample:
  "factory_calls (snd (run_accesses env_broken [Repr, Repr] init_maker)) = 2 \<and>
   the_instance (snd (run_accesses env_broken [Repr, Repr] init_maker)) = None"
  by (simp add: proxy_access_def instantiate_def init_maker_def factory_broken)

text \<open>
  C7, as amended. When panel cannot be imported or is older than 0.9.5, the factory
  returns the first stub, and from then on every use of the proxy gives the same
  answer, whatever came before: taking the string representation raises a
  \<open>RuntimeError\<close> whose message asks to install panel and ends with the import error
  (\<open>False\<close> when panel was merely too old); attribute access raises \<open>AttributeError\<close>,
  item access raises \<open>TypeError\<close>, and enumerating the members succeeds.
\<close>

theorem stub_replies:
  assumes "(import_panel env = Inl (ImportError m) \<and> err = Some (ImportError m)) \<or>
           (import_panel env = Inr v \<and> version_lt v min_version = Inr True \<and> err = None)"
  shows "factory env = Inr (Install_stub err) \<and>
         (\<forall>pre a. fst (proxy_access env a (snd (run_accesses env pre init_maker))) =
            (case a of
               Repr \<Rightarrow> Inl (RuntimeError (install_message err))
             | Getattr n \<Rightarrow> Inl AttributeError
             | Getitem k \<Rightarrow> Inl TypeError
             | Dir \<Rightarrow> Inr Stub_members)) \<and>
         (\<exists>rest. install_message err = ''Please install panel to use the GUI'' @ rest)"
proof -
  have f: "factory env = Inr (Install_stub err)"
    using assms by (auto simp: factory_def do_import_def construct_def)
  have cached: "the_instance m = Some (Install_stub err) \<Longrightarrow>
      fst (proxy_access env a m) = forward env (Some (Install_stub err)) a" for m a
    by (simp add: proxy_access_def instantiate_cached)
  have reply: "fst (proxy_access env a (snd (run_accesses env pre init_maker))) =
      forward env (Some (Install_stub err)) a" for pre a
  proof (cases pre)
    case Nil
    then show ?thesis using first_access [OF f, of a] by simp
  next
    case (Cons b rest)
    have "the_instance (snd (run_accesses env pre init_maker)) = Some (Install_stub err)"
      unfolding Cons using first_access [OF f, of b] by (simp add: run_cached)
    then show ?thesis by (rule cached)
  qed
  have msg: "\<exists>rest. install_message err = ''Please install panel to use the GUI'' @ rest"
    by (simp add: install_message_def)
  show ?thesis using f reply msg by (simp add: forward_def split: access.split)
qed

text \<open>C7, witness: panel 0.8.3, the string representation taken after two other uses.\<close>

theorem stub_replies_witness:
  "factory env_old = Inr (Install_stub None) \<and>
   fst (proxy_access env_old Repr (snd (run_accesses env_old [Dir, Repr] init_maker))) =
     Inl (RuntimeError (install_message None))"
proof -
  have h: "(import_panel env_old = Inl (ImportError []) \<and> None = Some (ImportError [])) \<or>
           (import_panel env_old = Inr [VNum 0, VNum 8, VNum 3] \<and>
            version_lt [VNum 0, VNum 8, VNum 3] min_version = Inr True \<and> (None :: exn option) = None)"
    by (simp add: env_old_def min_version_def)
  note r = stub_replies [OF h]
  from r have "\<forall>pre a. fst (proxy_access env_old a (snd (run_accesses env_old pre init_maker))) =
            (case a of
               Repr \<Rightarrow> Inl (RuntimeError (install_message None))
             | Getattr n \<Rightarrow> Inl AttributeError
             | Getitem k \<Rightarrow> Inl TypeError
             | Dir \<Rightarrow> Inr Stub_members)"
    by blast
  then have "fst (proxy_access env_old Repr (snd (run_accesses env_old [Dir, Repr] init_maker))) =
     (case (Repr :: unit access) of
               Repr \<Rightarrow> Inl (RuntimeError (install_message None))
             | Getattr n \<Rightarrow> Inl AttributeError
             | Getitem k \<Rightarrow> Inl TypeError
             | Dir \<Rightarrow> Inr Stub_members)"
    by blast
  with r show ?thesis by simp
qed

text \<open>
  C7, counterexample to "every use fails with a descriptive error": with panel missing,
  enumerating the members of the proxy succeeds, and attribute access raises a bare
  \<open>AttributeError\<close>.
\<close>

theorem stub_dir_counterexample:
  "fst (proxy_access env_missing Dir init_maker) = Inr Stub_members \<and>
   fst (proxy_access env_missing (Getattr ''cat'') init_maker) = Inl AttributeError"
  by (simp add: proxy_access_def instantiate_def init_maker_def factory_missing forward_def)

section \<open>The catalog adder: properties\<close>

lemma new_cat_adder_demo: "new_cat_adder os_demo = (None, (demo_fs, new_url_selector, demo_adder))"
  by (simp add: new_cat_adder_def new_file_selector_def then_do_def make_options_def adder_fs_hooks_def 
      call_done_callback_def enable_widget_def os_demo_def path_def endswith_def sep_def new_url_selector_def
      assign_main_empty_def py_dict_def demo_fs_def demo_adder_def)

lemma cat_remote_missing: "cat env_demo remote_missing = Inl (OtherError ''no such catalog'')"
  by (simp add: cat_def cat_url_def remote_missing_def demo_adder_def url_url_def env_demo_def)

lemma cat_local_picked: "cat env_demo local_picked = Inr ''catalog''"
  by (simp add: cat_def cat_url_def local_picked_def demo_adder_def env_demo_def fs_url_def
      selected_def path_def endswith_def sep_def join_def startswith_def)

text \<open>
  C1. Whenever \<open>add_cat\<close> fails to build the catalog handle from the active tab's
  location, or its call of the done-callback fails (the callback raises, or there is
  none to call), \<open>add_cat\<close> raises that very exception, the error icon is set, and the
  children, the active tab, the button and \<open>visible\<close> are as they were: a visible
  component stays visible.
\<close>

theorem add_cat_failure:
  assumes "cat env (f, u, a) = Inl e \<or>
           (\<exists>c. cat env (f, u, a) = Inr c \<and>
                ((cat_done_callback env = None \<and> e = TypeError) \<or>
                 (\<exists>cb. cat_done_callback env = Some cb \<and> cb c = Some e)))"
  shows "\<exists>a1. add_cat env (f, u, a) = (Some e, (f, u, a1)) \<and>
              adder_validator_object a1 = Some Error_icon \<and>
              visible a1 = visible a \<and> adder_watching a1 = adder_watching a \<and>
              tabs_active a1 = tabs_active a \<and> widget_disabled a1 = widget_disabled a"
  using assms by (auto simp: add_cat_def)

text \<open>
  C1, witness: the remote tab holds \<open>/tmp/nonexistent.yaml\<close>, which is no catalog.
\<close>

theorem add_cat_failure_witness:
  "fst (add_cat env_demo remote_missing) = Some (OtherError ''no such catalog'') \<and>
   adder_validator_object (snd (snd (snd (add_cat env_demo remote_missing)))) = Some Error_icon \<and>
   visible (snd (snd (snd (add_cat env_demo remote_missing))))"
proof -
  have h: "cat env_demo (demo_fs, \<lparr>url_main_value = PStr ''/tmp/nonexistent.yaml''\<rparr>,
      demo_adder\<lparr>tabs_active := 1, widget_disabled := False\<rparr>) = Inl (OtherError ''no such catalog'')"
    using cat_remote_missing by (simp add: remote_missing_def)
  have v: "visible (demo_adder\<lparr>tabs_active := 1, widget_disabled := False\<rparr>)"
    by (simp add: demo_adder_def)
  from add_cat_failure [OF disjI1, OF h] v show ?thesis
    by (auto simp: remote_missing_def)
qed

text \<open>
  C2. Whenever the catalog handle is built and the done-callback returns, \<open>add_cat\<close>
  returns normally, the callback has been called once more than before, with the
  handle, and the component is hidden (its watchers torn down); nothing else changes.
\<close>

theorem add_cat_success:
  assumes "cat env (f, u, a) = Inr c" and "cat_done_callback env = Some cb" and "cb c = None"
  shows "add_cat env (f, u, a) =
           (None, (f, u, a\<lparr>done_calls := done_calls a @ [c], visible := False,
                            adder_watching := False\<rparr>))"
  using assms by (simp add: add_cat_def set_visible_def)

text \<open>C2, witness: the catalog file \<open>/data/a.yaml\<close> is picked on the local tab.\<close>

theorem add_cat_success_witness:
  "add_cat env_demo local_picked =
     (None, (fst local_picked, new_url_selector,
             demo_adder\<lparr>widget_disabled := False, done_calls := [''catalog''],
                        visible := False, adder_watching := False\<rparr>))"
proof -
  have h: "cat env_demo (demo_fs\<lparr>path_text_value := ''/data/'', main_value := PList [''a.yaml'']\<rparr>,
      new_url_selector, demo_adder\<lparr>widget_disabled := False\<rparr>) = Inr ''catalog''"
    using cat_local_picked by (simp add: local_picked_def)
  have cb: "cat_done_callback env_demo = Some (\<lambda>c. None)" by (simp add: env_demo_def)
  from add_cat_success [OF h cb] show ?thesis
    by (simp add: local_picked_def demo_adder_def)
qed

text \<open>
  C10. \<open>tab_change\<close> clears the error icon, enables the button when the new tab is the
  remote one, and changes nothing else, so it never disables the button. Hence, from
  a state on the local tab with nothing selected, switching to the remote tab and
  back leaves the button enabled, on the local tab, with still nothing selected.
\<close>

theorem tab_change_keeps_enabled:
  "tab_change new a = a\<lparr>adder_validator_object := None, widget_disabled := (new \<noteq> 1 \<and> widget_disabled a)\<rparr> \<and>
   (\<not> widget_disabled a \<longrightarrow> \<not> widget_disabled (tab_change new a)) \<and>
   (adder_watching a \<and> tabs_active a = 0 \<and> selected f = Inr (PList []) \<longrightarrow>
      (case switch_tab 0 (switch_tab 1 (f, u, a)) of
         (f2, u2, a2) \<Rightarrow> \<not> widget_disabled a2 \<and> tabs_active a2 = 0 \<and>
                          selected f2 = Inr (PList []) \<and> path f2 = path f))"
  by (auto simp: tab_change_def remove_error_def assign_tabs_active_def switch_tab_def Let_def)

text \<open>
  C10, witness: a CatAdder just constructed (button disabled, nothing selected).
\<close>

theorem tab_change_keeps_enabled_witness:
  "widget_disabled demo_adder \<and> selected demo_fs = Inr (PList []) \<and>
   \<not> widget_disabled (snd (snd (switch_tab 0 (switch_tab 1 (demo_fs, new_url_selector, demo_adder))))) \<and>
   tabs_active (snd (snd (switch_tab 0 (switch_tab 1 (demo_fs, new_url_selector, demo_adder))))) = 0 \<and>
   selected (fst (switch_tab 0 (switch_tab 1 (demo_fs, new_url_selector, demo_adder)))) = Inr (PList [])"
proof -
  have h: "adder_watching demo_adder \<and> tabs_active demo_adder = 0 \<and> selected demo_fs = Inr (PList [])"
    by (simp add: demo_adder_def demo_fs_def selected_def)
  have d: "widget_disabled demo_adder" by (simp add: demo_adder_def)
  from tab_change_keeps_enabled [of 1 demo_adder demo_fs new_url_selector] h
  have "case switch_tab 0 (switch_tab 1 (demo_fs, new_url_selector, demo_adder)) of
         (f2, u2, a2) \<Rightarrow> \<not> widget_disabled a2 \<and> tabs_active a2 = 0 \<and>
                          selected f2 = Inr (PList []) \<and> path f2 = path demo_fs"
    by simp
  with h d show ?thesis by (auto split: prod.splits)
qed

section \<open>The file browser: properties\<close>

lemma make_options_path_text:
  "path_text_value (fst (snd (make_options os h (f, w)))) = path_text_value f"
  by (auto simp: make_options_def then_do_def call_done_callback_def assign_main_empty_def
      split: option.split prod.split sum.split)

lemma assign_path_text_value:
  "path_text_value (fst (snd (assign_path_text os h v (f, w)))) = v"
  by (simp add: assign_path_text_def make_options_path_text validate_def)

text \<open>
  C4, the code at the claim's inputs. Whatever the file system and the callbacks do,
  \<open>move_up\<close> from \<open>/a/b/\<close> leaves the current directory \<open>/a/\<close>, and \<open>move_up\<close> from \<open>/a/\<close>
  leaves \<open>//\<close>, not \<open>/\<close>: \<open>dirname\<close> of \<open>/a\<close> is \<open>/\<close> already, and \<open>move_up\<close> appends a
  separator to it.
\<close>

theorem move_up_twice:
  "path (fst (snd (move_up os h (f\<lparr>path_text_value := ''/a/b/''\<rparr>, w)))) = ''/a/'' \<and>
   path (fst (snd (move_up os h (f\<lparr>path_text_value := ''/a/''\<rparr>, w)))) = ''//''"
  by (simp add: move_up_def assign_path_text_value path_def endswith_def sep_def rstrip_def dirname_def)

text \<open>C4, the second step in a concrete file system.\<close>

theorem move_up_twice_witness:
  "path (fst (snd (move_up os_demo plain_hooks (demo_fs\<lparr>path_text_value := ''/a/''\<rparr>, ())))) = ''//''"
  using move_up_twice [of os_demo plain_hooks demo_fs "()"] by simp

text \<open>
  C6, the code on both cases. With a first selected entry \<open>x\<close>, \<open>url\<close> is the current
  directory joined with \<open>x\<close>. With nothing selected, \<open>selected\<close> is the empty list, not
  \<open>None\<close>, so \<open>url\<close> passes it to \<open>os.path.join\<close> and raises \<open>TypeError\<close>.
\<close>

theorem fs_url_nothing_selected:
  "(main_value f = PList (x # xs) \<longrightarrow> fs_url f = Inr (PStr (join (path f) x))) \<and>
   (main_value f = PList [] \<longrightarrow> fs_url f = Inl TypeError)"
  by (simp add: fs_url_def selected_def)

text \<open>C6, at a fresh FileSelector and at one with \<open>a.yaml\<close> selected in \<open>/data/\<close>.\<close>

theorem fs_url_nothing_selected_witness:
  "main_value demo_fs = PList [] \<and> fs_url demo_fs = Inl TypeError \<and>
   fs_url (fst local_picked) = Inr (PStr ''/data/a.yaml'')"
  using fs_url_nothing_selected [of demo_fs] fs_url_nothing_selected [of "fst local_picked" "''a.yaml''" "[]"]
  by (simp add: demo_fs_def local_picked_def path_def endswith_def sep_def join_def startswith_def)

subsection \<open>Notifications\<close>

lemma call_done_callback_notified:
  "notified (fst (snd (call_done_callback h b (f, w)))) =
     notified f @ (if fs_done_callback h \<noteq> None then [b] else [])"
  by (auto simp: call_done_callback_def split: option.split prod.split)

lemma assign_main_empty_notified:
  "notified (fst (snd (assign_main_empty h (f, w)))) = notified f"
  by (auto simp: assign_main_empty_def split: prod.split)

lemma make_options_notified:
  "notified (fst (snd (make_options os h (f, w)))) =
     notified f @ (if fs_done_callback h \<noteq> None then [False] else [])"
  by (auto simp: make_options_def then_do_def call_done_callback_def assign_main_empty_def
      split: option.split prod.split sum.split)

lemma assign_path_text_notified:
  "notified (fst (snd (assign_path_text os h v (f, w)))) =
     notified f @ (if path_text_value f \<noteq> v \<and> watching f \<and> fs_done_callback h \<noteq> None
                   then [False] else [])"
  by (simp add: assign_path_text_def make_options_notified validate_def)

lemma then_do_grows:
  assumes "\<And>f w. \<exists>r. notified (fst (snd (a (f, w)))) = notified f @ r"
      and "\<And>f w. \<exists>r. notified (fst (snd (b (f, w)))) = notified f @ r"
  shows "\<exists>r. notified (fst (snd (then_do a b (f, w)))) = notified f @ r"
proof (cases "a (f, w)")
  case (fields x f1 w1)
  from assms(1) [of f w] fields obtain r1 where r1: "notified f1 = notified f @ r1" by auto
  show ?thesis
  proof (cases x)
    case None
    from assms(2) [of f1 w1] obtain r2 where
      "notified (fst (snd (b (f1, w1)))) = notified f1 @ r2" by auto
    with None fields r1 show ?thesis by (simp add: then_do_def)
  next
    case (Some e)
    with fields r1 show ?thesis by (simp add: then_do_def)
  qed
qed

lemma move_down_grows:
  "\<exists>r. notified (fst (snd (move_down os h new (f, w)))) = notified f @ r"
proof -
  have step: "\<exists>r. notified (fst (snd (then_do (assign_path_text os h v) (make_options os h) (f, w)))) =
      notified f @ r" for v
    by (rule then_do_grows) (simp_all add: assign_path_text_notified make_options_notified)
  show ?thesis
    using step
    by (auto simp: move_down_def call_done_callback_notified
        split: sum.split pyval.split)
qed

lemma assign_main_value_grows:
  "\<exists>r. notified (fst (snd (assign_main_value os h v (f, w)))) = notified f @ r"
proof (cases "main_value f = v")
  case True
  then show ?thesis by (simp add: assign_main_value_def)
next
  case False
  have "\<exists>r. notified (fst (snd (then_do
            (\<lambda>(f, w). if watching f then move_down os h v (f, w) else (None, (f, w)))
            (\<lambda>(f, w). case main_watchers h w of (r, w1) \<Rightarrow> (r, (f, w1)))
            (f\<lparr>main_value := v\<rparr>, w)))) = notified (f\<lparr>main_value := v\<rparr>) @ r"
  proof (rule then_do_grows)
    fix f w
    show "\<exists>r. notified (fst (snd ((\<lambda>(f, w). if watching f then move_down os h v (f, w)
              else (None, (f, w))) (f, w)))) = notified f @ r"
      using move_down_grows [of os h v f w] by simp
  next
    fix f w
    show "\<exists>r. notified (fst (snd ((\<lambda>(f, w). case main_watchers h w of (r, w1) \<Rightarrow> (r, (f, w1)))
              (f, w)))) = notified f @ r"
      by (simp split: prod.split)
  qed
  with False show ?thesis by (simp add: assign_main_value_def)
qed

lemma assign_main_value_unwatched:
  "\<not> watching f \<Longrightarrow> notified (fst (snd (assign_main_value os h v (f, w)))) = notified f"
  by (auto simp: assign_main_value_def then_do_def split: prod.split option.split)

lemma make_options_watching:
  "watching (fst (snd (make_options os h (f, w)))) = watching f"
  by (auto simp: make_options_def then_do_def call_done_callback_def assign_main_empty_def
      split: option.split prod.split sum.split)

lemma assign_path_text_watching:
  "watching (fst (snd (assign_path_text os h v (f, w)))) = watching f"
  by (simp add: assign_path_text_def make_options_watching validate_def)

lemma new_file_selector_demo:
  "new_file_selector os_demo plain_hooks [''yaml'', ''yml''] () = (None, (demo_fs, ()))"
  by (simp add: new_file_selector_def then_do_def make_options_def plain_hooks_def
      call_done_callback_def os_demo_def path_def endswith_def sep_def
      assign_main_empty_def py_dict_def demo_fs_def)

text \<open>
  C9, as amended. \<open>__setstate__\<close> assigns the path text and the selection to the widgets,
  and the assignments call the watchers that are registered. It makes no call of
  \<open>done_callback\<close> when the watchers of the FileSelector are not registered, and does
  nothing at all when the snapshot holds the values the widgets have. With the watchers
  registered and a callback given, a restored path that differs from the path text
  runs \<open>make_options\<close>, which calls \<open>done_callback(False)\<close>.
\<close>

theorem setstate_notifications:
  "(\<not> watching f \<longrightarrow> notified (fst (snd (fs_setstate os h st (f, w)))) = notified f) \<and>
   (snap_path st = path_text_value f \<and> snap_selected st = main_value f \<longrightarrow>
      fs_setstate os h st (f, w) = (None, (f, w))) \<and>
   (watching f \<and> fs_done_callback h \<noteq> None \<and> snap_path st \<noteq> path_text_value f \<longrightarrow>
      (\<exists>rest. notified (fst (snd (fs_setstate os h st (f, w)))) = notified f @ False # rest))"
proof (intro conjI impI)
  assume nw: "\<not> watching f"
  obtain x f1 w1 where a: "assign_path_text os h (snap_path st) (f, w) = (x, (f1, w1))"
    by (cases "assign_path_text os h (snap_path st) (f, w)") auto
  from a nw have n1: "notified f1 = notified f"
    using assign_path_text_notified [of os h "snap_path st" f w] by simp
  from a nw have w1: "\<not> watching f1"
    using assign_path_text_watching [of os h "snap_path st" f w] by simp
  show "notified (fst (snd (fs_setstate os h st (f, w)))) = notified f"
    using a n1 assign_main_value_unwatched [OF w1, of os h "snap_selected st" w1]
    by (cases x) (simp_all add: fs_setstate_def then_do_def)
next
  assume "snap_path st = path_text_value f \<and> snap_selected st = main_value f"
  then show "fs_setstate os h st (f, w) = (None, (f, w))"
    by (simp add: fs_setstate_def then_do_def assign_path_text_def assign_main_value_def)
next
  assume h: "watching f \<and> fs_done_callback h \<noteq> None \<and> snap_path st \<noteq> path_text_value f"
  obtain x f1 w1 where a: "assign_path_text os h (snap_path st) (f, w) = (x, (f1, w1))"
    by (cases "assign_path_text os h (snap_path st) (f, w)") auto
  from a h have n1: "notified f1 = notified f @ [False]"
    using assign_path_text_notified [of os h "snap_path st" f w] by auto
  obtain r where r: "notified (fst (snd (assign_main_value os h (snap_selected st) (f1, w1)))) =
      notified f1 @ r"
    using assign_main_value_grows [of os h "snap_selected st" f1 w1] by auto
  show "\<exists>rest. notified (fst (snd (fs_setstate os h st (f, w)))) = notified f @ False # rest"
    using a n1 r by (cases x) (simp_all add: fs_setstate_def then_do_def)
qed

text \<open>
  C9, witness: restoring \<open>/data/\<close> into a fresh FileSelector in \<open>/home/u/\<close> (one more
  call), restoring its own state (nothing happens), and restoring \<open>/data/\<close> with the
  watchers off (no call).
\<close>

theorem setstate_notifications_witness:
  "watching demo_fs \<and> snap_path \<lparr>snap_path = ''/data/'', snap_selected = PList []\<rparr> \<noteq> path_text_value demo_fs \<and>
   (\<exists>rest. notified (fst (snd (fs_setstate os_demo plain_hooks
        \<lparr>snap_path = ''/data/'', snap_selected = PList []\<rparr> (demo_fs, ())))) = notified demo_fs @ False # rest) \<and>
   fs_setstate os_demo plain_hooks \<lparr>snap_path = ''/home/u/'', snap_selected = PList []\<rparr> (demo_fs, ()) =
     (None, (demo_fs, ())) \<and>
   notified (fst (snd (fs_setstate os_demo plain_hooks
        \<lparr>snap_path = ''/data/'', snap_selected = PList []\<rparr> (demo_fs\<lparr>watching := False\<rparr>, ())))) = notified demo_fs"
  using setstate_notifications [of demo_fs os_demo plain_hooks "\<lparr>snap_path = ''/data/'', snap_selected = PList []\<rparr>" "()"]
        setstate_notifications [of demo_fs os_demo plain_hooks "\<lparr>snap_path = ''/home/u/'', snap_selected = PList []\<rparr>" "()"]
        setstate_notifications [of "demo_fs\<lparr>watching := False\<rparr>" os_demo plain_hooks "\<lparr>snap_path = ''/data/'', snap_selected = PList []\<rparr>" "()"]
  by (simp add: demo_fs_def plain_hooks_def)

text \<open>
  C9, counterexample to "restoring does not invoke done_callback": the snapshot of a
  FileSelector in \<open>/data/\<close> with nothing selected, restored into a fresh FileSelector
  (whose construction had called \<open>done_callback(False)\<close> once), calls
  \<open>done_callback(False)\<close> a second time.
\<close>

theorem setstate_notifies_counterexample:
  "fs_getstate (demo_fs\<lparr>path_text_value := ''/data/''\<rparr>) = Inr \<lparr>snap_path = ''/data/'', snap_selected = PList []\<rparr> \<and>
   notified demo_fs = [False] \<and>
   notified (fst (snd (fs_setstate os_demo plain_hooks
        \<lparr>snap_path = ''/data/'', snap_selected = PList []\<rparr> (demo_fs, ())))) = [False, False]"
  by (simp add: fs_setstate_def then_do_def assign_path_text_def assign_main_value_def
      make_options_notified validate_def demo_fs_def plain_hooks_def fs_getstate_def selected_def
      path_def endswith_def sep_def make_options_def call_done_callback_def os_demo_def
      assign_main_empty_def)

subsection \<open>The listing\<close>

lemma scan_entries_spec:
  "scan_entries os flt p ns = map (spec_shown_as os p) (filter (spec_listed os flt p) ns)"
  by (induction ns) (simp_all add: spec_listed_def spec_shown_as_def)

lemma update_fresh: "k \<notin> fst ` set d \<Longrightarrow> AList.update k v d = d @ [(k, v)]"
  by (induction d) auto

lemma foldl_update_distinct:
  "distinct (map fst (d @ ps)) \<Longrightarrow>
   foldl (\<lambda>d (k, v). AList.update k v d) d ps = d @ ps"
proof (induction ps arbitrary: d)
  case Nil
  then show ?case by simp
next
  case (Cons p ps)
  obtain k v where p: "p = (k, v)" by (cases p)
  from Cons.prems p have fresh: "k \<notin> fst ` set d" by auto
  from Cons.prems p have "distinct (map fst ((d @ [(k, v)]) @ ps))" by auto
  from Cons.IH [OF this] show ?case using p fresh by (simp add: update_fresh)
qed

lemma py_dict_distinct: "distinct (map fst ps) \<Longrightarrow> py_dict ps = ps"
  using foldl_update_distinct [of "[]" ps] by (simp add: py_dict_def)

lemma zip_same: "zip xs xs = map (\<lambda>x. (x, x)) xs"
  by (induction xs) simp_all

lemma shown_as_inj:
  assumes "CHR ''/'' \<notin> set n" and "CHR ''/'' \<notin> set m"
    and "spec_shown_as os p n = spec_shown_as os p m"
  shows "n = m"
  using assms by (auto simp: spec_shown_as_def sep_def split: if_splits)

lemma distinct_shown:
  assumes "distinct ns" and "\<forall>n \<in> set ns. CHR ''/'' \<notin> set n"
  shows "distinct (map (spec_shown_as os p) ns)"
proof -
  have "inj_on (spec_shown_as os p) (set ns)"
    using assms(2) by (auto intro!: inj_onI dest: shown_as_inj)
  with assms(1) show ?thesis by (simp add: distinct_map)
qed

lemma notify_quiet:
  assumes "quiet_hooks h"
  shows "\<exists>w1. (if fs_done_callback h \<noteq> None then call_done_callback h False (f, w) else (None, (f, w))) =
           (None, (f\<lparr>notified := notified f @ (if fs_done_callback h \<noteq> None then [False] else [])\<rparr>, w1))"
proof (cases "fs_done_callback h")
  case None
  then show ?thesis by simp
next
  case (Some cb)
  from assms Some have "fst (cb False w) = None" by (simp add: quiet_hooks_def)
  with Some show ?thesis
    by (cases "cb False w") (simp add: call_done_callback_def)
qed

lemma assign_main_empty_quiet:
  assumes "quiet_hooks h"
  shows "\<exists>w1. assign_main_empty h (f, w) = (None, (f\<lparr>main_value := PList []\<rparr>, w1))"
proof (cases "main_value f = PList []")
  case True
  then have "f\<lparr>main_value := PList []\<rparr> = f" by (cases f) simp
  with True show ?thesis by (simp add: assign_main_empty_def)
next
  case False
  from assms have "fst (main_watchers h w) = None" by (simp add: quiet_hooks_def)
  with False show ?thesis
    by (cases "main_watchers h w") (simp add: assign_main_empty_def)
qed

lemma make_options_quiet:
  assumes q: "quiet_hooks h"
    and l: "isdir os (path f) \<longrightarrow> listdir os (path f) = Inr names"
  shows "\<exists>w1. make_options os h (f, w) =
          (None, (f\<lparr>notified := notified f @ (if fs_done_callback h \<noteq> None then [False] else []),
                    main_value := PList [],
                    main_options :=
                      (let out = (if isdir os (path f)
                                  then scan_entries os (filters f) (path f) (sort names) else [])
                       in py_dict (zip out out))\<rparr>, w1))"
proof -
  let ?f1 = "f\<lparr>notified := notified f @ (if fs_done_callback h \<noteq> None then [False] else [])\<rparr>"
  from notify_quiet [OF q, of f w] obtain w1 where
    n: "(if fs_done_callback h \<noteq> None then call_done_callback h False (f, w) else (None, (f, w))) =
           (None, (?f1, w1))" by blast
  from assign_main_empty_quiet [OF q, of ?f1 w1] obtain w2 where
    m: "assign_main_empty h (?f1, w1) = (None, (?f1\<lparr>main_value := PList []\<rparr>, w2))" by blast
  have p: "path ?f1 = path f" by (simp add: path_def)
  show ?thesis
  proof (cases "isdir os (path f)")
    case True
    with l have "listdir os (path f) = Inr names" by simp
    with True n m p show ?thesis
      by (simp add: make_options_def then_do_def Let_def)
  next
    case False
    with n m p show ?thesis
      by (simp add: make_options_def then_do_def Let_def)
  qed
qed

lemma quiet_plain: "quiet_hooks plain_hooks"
  by (simp add: quiet_hooks_def plain_hooks_def)

lemma path_data: "path data_fs = ''/data/''"
  by (simp add: data_fs_def path_def endswith_def sep_def)

lemma sort_data:
  "sort [''notes.txt'', ''b.yml'', ''a.yaml'', ''.git'', ''a'', ''.hidden.yaml''] =
     [''.git'', ''.hidden.yaml'', ''a'', ''a.yaml'', ''b.yml'', ''notes.txt'']"
  by simp

text \<open>
  C5, as amended. When the callback and the watchers return normally and the listing
  of the current directory returns (distinct names, none with a separator in it),
  \<open>make_options\<close> returns normally, the selection is empty, and the options are the
  entries shown for the names \<open>ns\<close>, where \<open>ns\<close> are exactly the listed names of the
  directory (not hidden; a subdirectory, or a file whose name ends with a filter) in
  lexicographic order; when the current directory is not a directory, there are none.
  A subdirectory is shown with the separator appended. The order is that of the
  names: the separator is appended after sorting.
\<close>

theorem make_options_listing:
  assumes "quiet_hooks h"
    and "isdir os (path f) \<longrightarrow>
           listdir os (path f) = Inr names \<and> distinct names \<and> (\<forall>n \<in> set names. CHR ''/'' \<notin> set n)"
  shows "\<exists>f1 w1 ns.
           make_options os h (f, w) = (None, (f1, w1)) \<and>
           main_value f1 = PList [] \<and>
           main_options f1 =
             map (\<lambda>n. (spec_shown_as os (path f) n, spec_shown_as os (path f) n)) ns \<and>
           sorted ns \<and> distinct ns \<and>
           set ns = (if isdir os (path f)
                     then {n \<in> set names. spec_listed os (filters f) (path f) n} else {})"
proof -
  from assms(2) have l: "isdir os (path f) \<longrightarrow> listdir os (path f) = Inr names" by simp
  from make_options_quiet [OF assms(1) l, of w] obtain w1 where
    mo: "make_options os h (f, w) =
          (None, (f\<lparr>notified := notified f @ (if fs_done_callback h \<noteq> None then [False] else []),
                    main_value := PList [],
                    main_options :=
                      (let out = (if isdir os (path f)
                                  then scan_entries os (filters f) (path f) (sort names) else [])
                       in py_dict (zip out out))\<rparr>, w1))" by blast
  define ns where "ns = (if isdir os (path f)
      then filter (spec_listed os (filters f) (path f)) (sort names) else [])"
  define out where "out = map (spec_shown_as os (path f)) ns"
  have out: "(if isdir os (path f)
              then scan_entries os (filters f) (path f) (sort names) else []) = out"
    by (simp add: out_def ns_def scan_entries_spec)
  have srt: "sorted ns" by (simp add: ns_def sorted_wrt_filter)
  have dist: "distinct ns" using assms(2) by (simp add: ns_def)
  have noslash: "\<forall>n \<in> set ns. CHR ''/'' \<notin> set n"
    using assms(2) by (auto simp: ns_def split: if_splits)
  have "distinct out" unfolding out_def using dist noslash by (rule distinct_shown)
  then have "distinct (map fst (zip out out))" by (simp add: zip_same comp_def)
  then have "py_dict (zip out out) = zip out out" by (rule py_dict_distinct)
  then have opts: "py_dict (zip out out) =
      map (\<lambda>n. (spec_shown_as os (path f) n, spec_shown_as os (path f) n)) ns"
    by (simp add: zip_same out_def comp_def)
  have members: "set ns = (if isdir os (path f)
                     then {n \<in> set names. spec_listed os (filters f) (path f) n} else {})"
    by (auto simp: ns_def)
  let ?f1 = "f\<lparr>notified := notified f @ (if fs_done_callback h \<noteq> None then [False] else []),
                main_value := PList [],
                main_options :=
                  map (\<lambda>n. (spec_shown_as os (path f) n, spec_shown_as os (path f) n)) ns\<rparr>"
  have mo1: "make_options os h (f, w) = (None, (?f1, w1))"
    unfolding mo out Let_def opts ..
  have "make_options os h (f, w) = (None, (?f1, w1)) \<and>
           main_value ?f1 = PList [] \<and>
           main_options ?f1 =
             map (\<lambda>n. (spec_shown_as os (path f) n, spec_shown_as os (path f) n)) ns \<and>
           sorted ns \<and> distinct ns \<and>
           set ns = (if isdir os (path f)
                     then {n \<in> set names. spec_listed os (filters f) (path f) n} else {})"
    using mo1 srt dist members by simp
  then show ?thesis by blast
qed

text \<open>C5, witness: the directory \<open>/data/\<close> with the default filters.\<close>

theorem make_options_listing_witness:
  "quiet_hooks plain_hooks \<and> isdir os_demo (path data_fs) \<and>
   (\<exists>f1 w1 ns.
       make_options os_demo plain_hooks (data_fs, ()) = (None, (f1, w1)) \<and>
       main_value f1 = PList [] \<and>
       main_options f1 = map (\<lambda>n. (spec_shown_as os_demo ''/data/'' n, spec_shown_as os_demo ''/data/'' n)) ns \<and>
       sorted ns \<and> distinct ns \<and>
       set ns = {n \<in> set [''notes.txt'', ''b.yml'', ''a.yaml'', ''.git'', ''a'', ''.hidden.yaml''].
                  spec_listed os_demo [''yaml'', ''yml''] ''/data/'' n})"
proof -
  have d: "isdir os_demo (path data_fs)" by (simp add: path_data os_demo_def)
  have h: "isdir os_demo (path data_fs) \<longrightarrow>
           listdir os_demo (path data_fs) = Inr [''notes.txt'', ''b.yml'', ''a.yaml'', ''.git'', ''a'', ''.hidden.yaml''] \<and>
           distinct [''notes.txt'', ''b.yml'', ''a.yaml'', ''.git'', ''a'', ''.hidden.yaml''] \<and>
           (\<forall>n \<in> set [''notes.txt'', ''b.yml'', ''a.yaml'', ''.git'', ''a'', ''.hidden.yaml'']. CHR ''/'' \<notin> set n)"
    by (simp add: path_data os_demo_def)
  have f: "filters data_fs = [''yaml'', ''yml'']" by (simp add: data_fs_def demo_fs_def)
  from make_options_listing [OF quiet_plain h, of "()"] d f quiet_plain show ?thesis
    by (simp add: path_data)
qed

text \<open>
  C5, counterexample to "the produced entries are in lexicographic order": \<open>/data/\<close>
  holds the subdirectory \<open>a\<close> and the file \<open>a.yaml\<close>; the entries produced are \<open>a/\<close>,
  \<open>a.yaml\<close>, \<open>b.yml\<close>, and \<open>a/\<close> is greater than \<open>a.yaml\<close> (the separator comes after the
  dot).
\<close>

theorem listing_unsorted_counterexample:
  "map fst (main_options (fst (snd (make_options os_demo plain_hooks (data_fs, ()))))) =
     [''a/'', ''a.yaml'', ''b.yml''] \<and>
   \<not> sorted (map fst (main_options (fst (snd (make_options os_demo plain_hooks (data_fs, ()))))))"
proof -
  have "map fst (main_options (fst (snd (make_options os_demo plain_hooks (data_fs, ()))))) =
     [''a/'', ''a.yaml'', ''b.yml'']"
    by (simp add: make_options_def then_do_def plain_hooks_def call_done_callback_def
        path_def assign_main_empty_def os_demo_def sort_data startswith_def endswith_def
        join_def sep_def py_dict_def data_fs_def demo_fs_def)
  then show ?thesis by simp
qed

section \<open>Capturing and restoring state\<close>

lemma endswith_path: "endswith (path f) sep"
  by (simp add: path_def endswith_def sep_def Let_def)

lemma path_restored: "path_text_value f1 = path f \<Longrightarrow> path f1 = path f"
  using endswith_path [of f] by (simp add: path_def Let_def)

lemma make_options_main_empty:
  "main_value f = PList [] \<Longrightarrow> main_value (fst (snd (make_options os h (f, w)))) = PList []"
  by (auto simp: make_options_def then_do_def call_done_callback_def assign_main_empty_def
      split: option.split prod.split sum.split)

lemma assign_path_text_main_empty:
  "main_value f = PList [] \<Longrightarrow>
   main_value (fst (snd (assign_path_text os h v (f, w)))) = PList []"
  by (simp add: assign_path_text_def make_options_main_empty validate_def)

lemma assign_main_value_same:
  "main_value f = v \<Longrightarrow> assign_main_value os h v (f, w) = (None, (f, w))"
  by (simp add: assign_main_value_def)

lemma fs_setstate_empty:
  assumes "main_value f0 = PList []"
  shows "path_text_value (fst (snd (fs_setstate os h \<lparr>snap_path = p, snap_selected = PList []\<rparr> (f0, w)))) = p \<and>
         main_value (fst (snd (fs_setstate os h \<lparr>snap_path = p, snap_selected = PList []\<rparr> (f0, w)))) = PList []"
proof -
  obtain x f1 w1 where a: "assign_path_text os h p (f0, w) = (x, (f1, w1))"
    by (cases "assign_path_text os h p (f0, w)") auto
  from a have p1: "path_text_value f1 = p"
    using assign_path_text_value [of os h p f0 w] by simp
  from a assms have m1: "main_value f1 = PList []"
    using assign_path_text_main_empty [of f0 os h p w] by simp
  show ?thesis
    using a p1 m1 by (cases x) (simp_all add: fs_setstate_def then_do_def assign_main_value_same)
qed

lemma new_file_selector_main:
  "main_value (fst (snd (new_file_selector os h flt w))) = PList []"
proof -
  let ?f = "\<lparr>filters = flt, path_text_value = getcwd os @ sep, validator_object = None,
         main_value = PList [], main_options = [], watching = False, notified = []\<rparr>"
  have "main_value (fst (snd (make_options os h (?f, w)))) = PList []"
    by (rule make_options_main_empty) simp
  then show ?thesis
    by (cases "make_options os h (?f, w)")
       (auto simp: new_file_selector_def then_do_def split: option.split)
qed

lemma selected_empty: "main_value f = PList [] \<Longrightarrow> selected f = Inr (PList [])"
  by (simp add: selected_def)

lemma fs_roundtrip:
  assumes "selected f = Inr (PList [])" and "main_value f0 = PList []"
  shows "fs_getstate f = Inr \<lparr>snap_path = path f, snap_selected = PList []\<rparr> \<and>
         fs_observed (fst (snd (fs_setstate os h \<lparr>snap_path = path f, snap_selected = PList []\<rparr> (f0, w)))) =
           fs_observed f"
  using assms fs_setstate_empty [OF assms(2), of os h "path f" w]
  by (simp add: fs_getstate_def fs_observed_def path_restored selected_empty)

lemma url_roundtrip:
  "url_url (fst (snd (url_setstate ws (url_getstate u) (u0, w)))) = url_url u"
  by (auto simp: url_setstate_def url_getstate_def assign_url_value_def url_url_def
      split: prod.split)


lemma quiet_adder: "quiet_hooks adder_fs_hooks"
  by (simp add: quiet_hooks_def adder_fs_hooks_def adder_watchers_def split: prod.split)

lemma path_validate: "path (validate os f) = path f"
  by (simp add: validate_def path_def)

lemma assign_path_text_quiet:
  assumes q: "quiet_hooks h"
    and l: "isdir os p \<longrightarrow> (\<exists>names. listdir os p = Inr names)"
    and e: "endswith p sep"
  shows "fst (assign_path_text os h p (f, w)) = None"
proof -
  let ?f1 = "validate os (f\<lparr>path_text_value := p\<rparr>)"
  have p1: "path ?f1 = p" using e by (simp add: path_validate) (simp add: path_def)
  from l obtain names where "isdir os p \<longrightarrow> listdir os p = Inr names" by blast
  with p1 have "isdir os (path ?f1) \<longrightarrow> listdir os (path ?f1) = Inr names" by simp
  from make_options_quiet [OF q this, of w] have "fst (make_options os h (?f1, w)) = None"
    by auto
  then show ?thesis by (simp add: assign_path_text_def)
qed

lemma adder_make_options_world:
  "fst (snd (snd (make_options os adder_fs_hooks (f, u, a)))) = u \<and>
   tabs_active (snd (snd (snd (make_options os adder_fs_hooks (f, u, a))))) = tabs_active a"
  by (auto simp: make_options_def then_do_def call_done_callback_def assign_main_empty_def
      adder_fs_hooks_def adder_watchers_def enable_widget_def remove_error_def
      split: option.split prod.split sum.split)

lemma adder_assign_path_text_world:
  "fst (snd (snd (assign_path_text os adder_fs_hooks p (f, u, a)))) = u \<and>
   tabs_active (snd (snd (snd (assign_path_text os adder_fs_hooks p (f, u, a))))) = tabs_active a"
  by (simp add: assign_path_text_def adder_make_options_world)

lemma adder_fs_setstate:
  assumes m: "main_value f0 = PList []"
    and l: "isdir os p \<longrightarrow> (\<exists>names. listdir os p = Inr names)"
    and e: "endswith p sep"
  shows "\<exists>f1 a1. fs_setstate os adder_fs_hooks \<lparr>snap_path = p, snap_selected = PList []\<rparr> (f0, u0, a0) =
             (None, (f1, u0, a1)) \<and>
           path_text_value f1 = p \<and> main_value f1 = PList [] \<and> tabs_active a1 = tabs_active a0"
proof -
  obtain x f1 u1 a1 where a: "assign_path_text os adder_fs_hooks p (f0, u0, a0) = (x, (f1, u1, a1))"
    by (cases "assign_path_text os adder_fs_hooks p (f0, u0, a0)") auto
  from assign_path_text_quiet [OF quiet_adder l e, of f0 "(u0, a0)"] a have x: "x = None" by simp
  from a have p1: "path_text_value f1 = p"
    using assign_path_text_value [of os adder_fs_hooks p f0 "(u0, a0)"] by simp
  from a m have m1: "main_value f1 = PList []"
    using assign_path_text_main_empty [of f0 os adder_fs_hooks p "(u0, a0)"] by simp
  from a have w1: "u1 = u0 \<and> tabs_active a1 = tabs_active a0"
    using adder_assign_path_text_world [of os p f0 u0 a0] by simp
  show ?thesis
    using a x p1 m1 w1 by (simp add: fs_setstate_def then_do_def assign_main_value_same)
qed

lemma adder_url_setstate:
  "\<exists>u1 a2. url_setstate adder_watchers \<lparr>snap_url = x\<rparr> (u0, a1) = (None, (u1, a2)) \<and>
           url_url u1 = x \<and> tabs_active a2 = tabs_active a1"
  by (simp add: url_setstate_def assign_url_value_def adder_watchers_def url_url_def
      remove_error_def)

lemma restore_visibility:
  "visible (set_visible v a) = v \<and>
   tabs_active (set_visible v a) = tabs_active a \<and>
   visible (assign_tabs_active i (set_visible v a)) = v \<and>
   tabs_active (assign_tabs_active i (set_visible v a)) = i"
  by (simp add: set_visible_def assign_tabs_active_def tab_change_def remove_error_def Let_def)

lemma cat_setstate_result:
  assumes m: "main_value f0 = PList []"
    and l: "isdir os p \<longrightarrow> (\<exists>names. listdir os p = Inr names)"
    and e: "endswith p sep"
  shows "\<exists>s1. cat_setstate os
                 \<lparr>snap_visible = Some v, snap_local = \<lparr>snap_path = p, snap_selected = PList []\<rparr>,
                  snap_remote = \<lparr>snap_url = x\<rparr>, snap_active = i\<rparr> (f0, u0, a0) = (None, s1) \<and>
              cat_observed s1 = ((p, Inr (PList [])), x, (if v then i else tabs_active a0), v)"
proof -
  from adder_fs_setstate [OF m l e, of u0 a0] obtain f1 a1 where
    s1: "fs_setstate os adder_fs_hooks \<lparr>snap_path = p, snap_selected = PList []\<rparr> (f0, u0, a0) =
             (None, (f1, u0, a1))"
    and f1: "path_text_value f1 = p" "main_value f1 = PList []"
    and a1: "tabs_active a1 = tabs_active a0" by blast
  from adder_url_setstate [of x u0 a1] obtain u1 a2 where
    s2: "url_setstate adder_watchers \<lparr>snap_url = x\<rparr> (u0, a1) = (None, (u1, a2))"
    and u1: "url_url u1 = x" and a2: "tabs_active a2 = tabs_active a1" by blast
  have obs: "fs_observed f1 = (p, Inr (PList []))"
    using f1 e by (simp add: fs_observed_def selected_empty path_def)
  show ?thesis
  proof (cases v)
    case True
    with s1 s2 u1 obs restore_visibility [of True a2 i] show ?thesis
      by (simp add: cat_setstate_def then_do_def cat_observed_def Let_def)
  next
    case False
    with s1 s2 u1 a1 a2 obs restore_visibility [of False a2 i] show ?thesis
      by (simp add: cat_setstate_def then_do_def cat_observed_def Let_def)
  qed
qed

lemma new_cat_adder_fresh:
  assumes "new_cat_adder os = (None, (f0, u0, a0))"
  shows "main_value f0 = PList [] \<and> tabs_active a0 = 0"
proof -
  let ?w = "(new_url_selector,
              \<lparr>widget_disabled = True, adder_validator_object = None, tabs_active = 0,
               visible = False, adder_watching = False, done_calls = ([] :: 'a list)\<rparr>)"
  have "main_value (fst (snd (new_file_selector os adder_fs_hooks [''yaml'', ''yml''] ?w))) = PList []"
    by (rule new_file_selector_main)
  with assms show ?thesis
    by (cases "new_file_selector os adder_fs_hooks [''yaml'', ''yml''] ?w")
       (auto simp: new_cat_adder_def split: option.splits prod.splits)
qed

lemma hidden_remote_eq:
  "add_cat env_demo (switch_tab 1 typed_remote) =
     (None, (demo_fs, \<lparr>url_main_value = PStr ''http://host/cat.yaml''\<rparr>,
             demo_adder\<lparr>widget_disabled := False, tabs_active := 1, done_calls := [''catalog''],
                         visible := False, adder_watching := False\<rparr>))"
  by (simp add: add_cat_def switch_tab_def typed_remote_def assign_tabs_active_def tab_change_def
      remove_error_def demo_adder_def cat_def cat_url_def url_url_def env_demo_def set_visible_def
      Let_def)

lemma selected_demo: "selected demo_fs = Inr (PList [])"
  by (simp add: demo_fs_def selected_def)

lemma path_demo: "path demo_fs = ''/home/u/''"
  by (simp add: demo_fs_def path_def endswith_def sep_def)

text \<open>
  C3, as amended. Restoring a captured state into a fresh component of the same kind
  reproduces what the specification observes, in these cases.
  \<^item> URLSelector: the text, always.
  \<^item> FileSelector with nothing selected: the current directory and the (empty)
    selection.
  \<^item> CatAdder with nothing selected in its FileSelector, when the listing of the
    restored directory does not fail: the restore returns normally and reproduces the
    current directory, the selection, the URL text and \<open>visible\<close>; it reproduces the
    active tab when the captured component was visible, and leaves the fresh
    component's tab (the first) active when it was hidden.
\<close>

theorem restore_roundtrip:
  "url_url (fst (snd (url_setstate ws (url_getstate u) (u0, w)))) = url_url u \<and>
   (selected f = Inr (PList []) \<and> new_file_selector os h flt w0 = (None, (f0, w1)) \<longrightarrow>
      (\<exists>st. fs_getstate f = Inr st \<and>
            fs_observed (fst (snd (fs_setstate os h st (f0, w1)))) = fs_observed f)) \<and>
   (selected f = Inr (PList []) \<and> new_cat_adder os = (None, c0) \<and>
    (isdir os (path f) \<longrightarrow> (\<exists>names. listdir os (path f) = Inr names)) \<longrightarrow>
      (\<exists>st c1. cat_getstate (f, u, a) = Inr st \<and> cat_setstate os st c0 = (None, c1) \<and>
            cat_observed c1 =
              (fs_observed f, url_url u, (if visible a then tabs_active a else 0), visible a)))"
proof (intro conjI impI)
  show "url_url (fst (snd (url_setstate ws (url_getstate u) (u0, w)))) = url_url u"
    by (rule url_roundtrip)
next
  assume h: "selected f = Inr (PList []) \<and> new_file_selector os h flt w0 = (None, (f0, w1))"
  then have "main_value f0 = PList []"
    using new_file_selector_main [of os h flt w0] by simp
  with h fs_roundtrip [of f f0 os h w1]
  show "\<exists>st. fs_getstate f = Inr st \<and>
            fs_observed (fst (snd (fs_setstate os h st (f0, w1)))) = fs_observed f"
    by auto
next
  assume h: "selected f = Inr (PList []) \<and> new_cat_adder os = (None, c0) \<and>
    (isdir os (path f) \<longrightarrow> (\<exists>names. listdir os (path f) = Inr names))"
  obtain f0 u0 a0 where c0: "c0 = (f0, u0, a0)" by (cases c0) auto
  from h c0 have fresh: "main_value f0 = PList []" "tabs_active a0 = 0"
    using new_cat_adder_fresh [of os f0 u0 a0] by auto
  from h have l: "isdir os (path f) \<longrightarrow> (\<exists>names. listdir os (path f) = Inr names)" by simp
  from h have g: "cat_getstate (f, u, a) =
      Inr \<lparr>snap_visible = Some (visible a),
           snap_local = \<lparr>snap_path = path f, snap_selected = PList []\<rparr>,
           snap_remote = \<lparr>snap_url = url_url u\<rparr>, snap_active = tabs_active a\<rparr>"
    by (simp add: cat_getstate_def fs_getstate_def url_getstate_def)
  from cat_setstate_result [OF fresh(1) l endswith_path, of "visible a" "url_url u" "tabs_active a" u0 a0]
  obtain c1 where r: "cat_setstate os
                 \<lparr>snap_visible = Some (visible a),
                  snap_local = \<lparr>snap_path = path f, snap_selected = PList []\<rparr>,
                  snap_remote = \<lparr>snap_url = url_url u\<rparr>, snap_active = tabs_active a\<rparr> (f0, u0, a0) = (None, c1)"
    and o: "cat_observed c1 = ((path f, Inr (PList [])), url_url u,
            (if visible a then tabs_active a else tabs_active a0), visible a)" by blast
  from h have sel: "selected f = Inr (PList [])" by simp
  let ?st = "\<lparr>snap_visible = Some (visible a),
           snap_local = \<lparr>snap_path = path f, snap_selected = PList []\<rparr>,
           snap_remote = \<lparr>snap_url = url_url u\<rparr>, snap_active = tabs_active a\<rparr>"
  have "cat_getstate (f, u, a) = Inr ?st \<and> cat_setstate os ?st c0 = (None, c1) \<and>
            cat_observed c1 =
              (fs_observed f, url_url u, (if visible a then tabs_active a else 0), visible a)"
    unfolding c0 o fs_observed_def sel using g r fresh(2) by simp
  then show "\<exists>st c1. cat_getstate (f, u, a) = Inr st \<and> cat_setstate os st c0 = (None, c1) \<and>
            cat_observed c1 =
              (fs_observed f, url_url u, (if visible a then tabs_active a else 0), visible a)"
    by blast
qed

text \<open>
  C3, witness: a FileSelector taken to \<open>/data/\<close>, and a visible CatAdder on the remote
  tab with that FileSelector and a URL typed in, each restored into a fresh component.
\<close>

theorem restore_roundtrip_witness:
  "selected data_fs = Inr (PList []) \<and>
   new_file_selector os_demo plain_hooks [''yaml'', ''yml''] () = (None, (demo_fs, ())) \<and>
   new_cat_adder os_demo = (None, (demo_fs, new_url_selector, demo_adder :: string adder)) \<and>
   listdir os_demo (path data_fs) = Inr [''notes.txt'', ''b.yml'', ''a.yaml'', ''.git'', ''a'', ''.hidden.yaml''] \<and>
   (\<exists>st. fs_getstate data_fs = Inr st \<and>
         fs_observed (fst (snd (fs_setstate os_demo plain_hooks st (demo_fs, ())))) = fs_observed data_fs) \<and>
   (\<exists>st c1. cat_getstate (data_fs, \<lparr>url_main_value = PStr ''http://host/cat.yaml''\<rparr>,
                          demo_adder\<lparr>tabs_active := 1\<rparr>) = Inr st \<and>
         cat_setstate os_demo st (demo_fs, new_url_selector, demo_adder) = (None, c1) \<and>
         cat_observed c1 = (fs_observed data_fs, PStr ''http://host/cat.yaml'', 1, True))"
proof -
  have s: "selected data_fs = Inr (PList [])"
    by (simp add: data_fs_def demo_fs_def selected_def)
  have p: "path data_fs = ''/data/''"
    by (simp add: data_fs_def path_def endswith_def sep_def)
  have l: "listdir os_demo (path data_fs) =
      Inr [''notes.txt'', ''b.yml'', ''a.yaml'', ''.git'', ''a'', ''.hidden.yaml'']"
    by (simp add: p os_demo_def)
  have v: "visible (demo_adder\<lparr>tabs_active := 1\<rparr>)" "tabs_active (demo_adder\<lparr>tabs_active := 1\<rparr>) = 1"
    by (simp_all add: demo_adder_def)
  note t = restore_roundtrip [of adder_watchers "\<lparr>url_main_value = PStr ''http://host/cat.yaml''\<rparr>"
      new_url_selector demo_adder data_fs os_demo plain_hooks "[''yaml'', ''yml'']" "()" demo_fs "()"
      "(demo_fs, new_url_selector, demo_adder)" "demo_adder\<lparr>tabs_active := 1\<rparr>"]
  have c: "isdir os_demo (path data_fs) \<longrightarrow> (\<exists>names. listdir os_demo (path data_fs) = Inr names)"
    using l by simp
  from t s new_file_selector_demo
  have part2: "\<exists>st. fs_getstate data_fs = Inr st \<and>
         fs_observed (fst (snd (fs_setstate os_demo plain_hooks st (demo_fs, ())))) = fs_observed data_fs"
    by blast
  from t s new_cat_adder_demo c
  have "\<exists>st c1. cat_getstate (data_fs, \<lparr>url_main_value = PStr ''http://host/cat.yaml''\<rparr>,
                          demo_adder\<lparr>tabs_active := 1\<rparr>) = Inr st \<and>
         cat_setstate os_demo st (demo_fs, new_url_selector, demo_adder) = (None, c1) \<and>
         cat_observed c1 =
              (fs_observed data_fs, url_url \<lparr>url_main_value = PStr ''http://host/cat.yaml''\<rparr>,
               (if visible (demo_adder\<lparr>tabs_active := 1\<rparr>)
                then tabs_active (demo_adder\<lparr>tabs_active := 1\<rparr>) else 0),
               visible (demo_adder\<lparr>tabs_active := 1\<rparr>))"
    by blast
  then have part3: "\<exists>st c1. cat_getstate (data_fs, \<lparr>url_main_value = PStr ''http://host/cat.yaml''\<rparr>,
                          demo_adder\<lparr>tabs_active := 1\<rparr>) = Inr st \<and>
         cat_setstate os_demo st (demo_fs, new_url_selector, demo_adder) = (None, c1) \<and>
         cat_observed c1 = (fs_observed data_fs, PStr ''http://host/cat.yaml'', 1, True)"
    unfolding url_url_def using v by simp
  from s new_file_selector_demo new_cat_adder_demo l part2 part3 show ?thesis
    by (intro conjI)
qed

text \<open>
  C3, counterexample to "the restored component has the same active tab": the user
  types a URL, switches to the remote tab and confirms, which hides the CatAdder with
  tab 1 active. Its captured state, restored into a fresh CatAdder, gives a hidden
  component with tab 0 active.
\<close>

theorem restore_hidden_tab_counterexample:
  "fst (add_cat env_demo (switch_tab 1 typed_remote)) = None \<and>
   cat_getstate hidden_remote =
     Inr \<lparr>snap_visible = Some False,
          snap_local = \<lparr>snap_path = ''/home/u/'', snap_selected = PList []\<rparr>,
          snap_remote = \<lparr>snap_url = PStr ''http://host/cat.yaml''\<rparr>, snap_active = 1\<rparr> \<and>
   cat_observed hidden_remote =
     ((''/home/u/'', Inr (PList [])), PStr ''http://host/cat.yaml'', 1, False) \<and>
   new_cat_adder os_demo = (None, (demo_fs, new_url_selector, demo_adder)) \<and>
   fst (cat_setstate os_demo
          \<lparr>snap_visible = Some False,
           snap_local = \<lparr>snap_path = ''/home/u/'', snap_selected = PList []\<rparr>,
           snap_remote = \<lparr>snap_url = PStr ''http://host/cat.yaml''\<rparr>, snap_active = 1\<rparr>
          (demo_fs, new_url_selector, demo_adder)) = None \<and>
   cat_observed (snd (cat_setstate os_demo
          \<lparr>snap_visible = Some False,
           snap_local = \<lparr>snap_path = ''/home/u/'', snap_selected = PList []\<rparr>,
           snap_remote = \<lparr>snap_url = PStr ''http://host/cat.yaml''\<rparr>, snap_active = 1\<rparr>
          (demo_fs, new_url_selector, demo_adder))) =
     ((''/home/u/'', Inr (PList [])), PStr ''http://host/cat.yaml'', 0, False)"
proof -
  have h: "hidden_remote = (demo_fs, \<lparr>url_main_value = PStr ''http://host/cat.yaml''\<rparr>,
             demo_adder\<lparr>widget_disabled := False, tabs_active := 1, done_calls := [''catalog''],
                         visible := False, adder_watching := False\<rparr>)"
    by (simp add: hidden_remote_def hidden_remote_eq)
  have g: "cat_getstate hidden_remote =
     Inr \<lparr>snap_visible = Some False,
          snap_local = \<lparr>snap_path = ''/home/u/'', snap_selected = PList []\<rparr>,
          snap_remote = \<lparr>snap_url = PStr ''http://host/cat.yaml''\<rparr>, snap_active = 1\<rparr>"
    by (simp add: h cat_getstate_def fs_getstate_def selected_demo path_demo url_getstate_def
        url_url_def demo_adder_def)
  have o: "cat_observed hidden_remote =
     ((''/home/u/'', Inr (PList [])), PStr ''http://host/cat.yaml'', 1, False)"
    by (simp add: h cat_observed_def fs_observed_def selected_demo path_demo url_url_def
        demo_adder_def)
  have r: "cat_setstate os_demo
          \<lparr>snap_visible = Some False,
           snap_local = \<lparr>snap_path = ''/home/u/'', snap_selected = PList []\<rparr>,
           snap_remote = \<lparr>snap_url = PStr ''http://host/cat.yaml''\<rparr>, snap_active = 1\<rparr>
          (demo_fs, new_url_selector, demo_adder) =
        (None, (demo_fs, \<lparr>url_main_value = PStr ''http://host/cat.yaml''\<rparr>,
                demo_adder\<lparr>visible := False, adder_watching := False\<rparr>))"
    by (simp add: cat_setstate_def then_do_def fs_setstate_def assign_path_text_def
        assign_main_value_def url_setstate_def assign_url_value_def adder_watchers_def
        remove_error_def set_visible_def new_url_selector_def demo_fs_def demo_adder_def)
  show ?thesis
    unfolding g o r
    by (simp add: hidden_remote_eq new_cat_adder_demo cat_observed_def fs_observed_def
        selected_demo path_demo url_url_def demo_adder_def)
qed

end
